theory Spec2Isabelle
  imports Main
begin

section \<open>JavaScript strings\<close>

text \<open>
  A JavaScript string is modelled as a \<open>string\<close>: one \<open>char\<close> per UTF-16 code unit.
  The model is exact on ASCII text; the only code unit beyond ASCII that the source
  itself writes is the line-break marker U+2591, which is the char \<open>0xB0\<close> here.
\<close>

definition carrReturnEsc :: string where
  "carrReturnEsc = [CHR 0xB0]"

definition tabEsc :: string where
  "tabEsc = ''_t_''"

text \<open>Line terminators (what \<open>.\<close> refuses) and white space (\<open>\s\<close>, \<open>trim\<close>).\<close>

definition is_line_term :: "char \<Rightarrow> bool" where
  "is_line_term c = (c = CHR 0x0A \<or> c = CHR 0x0D)"

definition is_space :: "char \<Rightarrow> bool" where
  "is_space c = (c = CHR '' '' \<or> c = CHR 0x09 \<or> c = CHR 0x0A \<or> c = CHR 0x0B
                 \<or> c = CHR 0x0C \<or> c = CHR 0x0D)"

definition in_range :: "char \<Rightarrow> char \<Rightarrow> char \<Rightarrow> bool" where
  "in_range lo hi c = ((of_char lo :: nat) \<le> of_char c \<and> (of_char c :: nat) \<le> of_char hi)"

definition is_alnum :: "char \<Rightarrow> bool" where
  "is_alnum c = (in_range CHR ''a'' CHR ''z'' c \<or> in_range CHR ''A'' CHR ''Z'' c
                 \<or> in_range CHR ''0'' CHR ''9'' c)"

definition is_word :: "char \<Rightarrow> bool" where
  "is_word c = (is_alnum c \<or> c = CHR ''_'')"

fun starts_with :: "string \<Rightarrow> string \<Rightarrow> bool" where
  "starts_with [] s = True"
| "starts_with (p # ps) [] = False"
| "starts_with (p # ps) (c # cs) = (if p = c then starts_with ps cs else False)"

text \<open>\<open>s.trim()\<close>\<close>

definition js_trim :: "string \<Rightarrow> string" where
  "js_trim s = rev (dropWhile is_space (rev (dropWhile is_space s)))"

text \<open>\<open>s.indexOf(p)\<close>: \<open>None\<close> is \<open>-1\<close>.\<close>

fun js_indexOf :: "string \<Rightarrow> string \<Rightarrow> nat option" where
  "js_indexOf p [] = (if p = [] then Some 0 else None)"
| "js_indexOf p (c # cs) =
     (if starts_with p (c # cs) then Some 0 else map_option Suc (js_indexOf p cs))"

text \<open>\<open>s.split(sep)\<close> for a non-empty separator string.\<close>

function js_split_aux :: "string \<Rightarrow> string \<Rightarrow> string \<Rightarrow> string list" where
  "js_split_aux sep acc s =
     (if sep \<noteq> [] \<and> starts_with sep s
      then rev acc # js_split_aux sep [] (drop (length sep) s)
      else (case s of [] \<Rightarrow> [rev acc] | c # cs \<Rightarrow> js_split_aux sep (c # acc) cs))"
  by pat_completeness auto
termination
proof (relation "measure (\<lambda>(sep, acc, s). length s)")
  show "wf (measure (\<lambda>(sep, acc, s). length s))"
    by simp
next
  fix sep acc s :: string
  assume "sep \<noteq> [] \<and> starts_with sep s"
  then have "sep \<noteq> []" and "s \<noteq> []"
    by (cases sep; cases s; simp)+
  then show "((sep, [], drop (length sep) s), sep, acc, s) \<in> measure (\<lambda>(sep, acc, s). length s)"
    by simp
next
  fix sep acc s :: string and c :: char and cs :: string
  assume "s = c # cs"
  then show "((sep, c # acc, cs), sep, acc, s) \<in> measure (\<lambda>(sep, acc, s). length s)"
    by simp
qed

definition js_split :: "string \<Rightarrow> string \<Rightarrow> string list" where
  "js_split sep s = js_split_aux sep [] s"

text \<open>\<open>xs.join(sep)\<close>\<close>

fun js_join :: "string \<Rightarrow> string list \<Rightarrow> string" where
  "js_join sep [] = []"
| "js_join sep [x] = x"
| "js_join sep (x # y # ys) = x @ sep @ js_join sep (y # ys)"

text \<open>
  The replacement text of \<open>s.replace(pattern, replacement)\<close> with a string pattern:
  \<open>$$\<close> is a dollar, \<open>$&\<close> the matched text, \<open>$`\<close> and \<open>$'\<close> the text before and
  after the match; a string pattern has no groups, so \<open>$1\<close> stays as written.
\<close>

fun js_substitution :: "string \<Rightarrow> string \<Rightarrow> string \<Rightarrow> string \<Rightarrow> string" where
  "js_substitution bef mat aft [] = []"
| "js_substitution bef mat aft [c] = [c]"
| "js_substitution bef mat aft (c # d # r) =
     (if c = CHR ''$'' \<and> d = CHR ''$'' then CHR ''$'' # js_substitution bef mat aft r
      else if c = CHR ''$'' \<and> d = CHR ''&'' then mat @ js_substitution bef mat aft r
      else if c = CHR ''$'' \<and> d = CHR 0x60 then bef @ js_substitution bef mat aft r
      else if c = CHR ''$'' \<and> d = CHR 0x27 then aft @ js_substitution bef mat aft r
      else c # js_substitution bef mat aft (d # r))"

text \<open>\<open>s.replace(p, r)\<close> with a string pattern \<open>p\<close>: the first occurrence only.\<close>

definition js_replace_str :: "string \<Rightarrow> string \<Rightarrow> string \<Rightarrow> string" where
  "js_replace_str p r s =
     (case js_indexOf p s of
        None \<Rightarrow> s
      | Some i \<Rightarrow> take i s @ js_substitution (take i s) p (drop (i + length p) s) r
                  @ drop (i + length p) s)"

section \<open>Regular expressions\<close>

text \<open>
  The regular expressions of the source are values of \<open>rx\<close>, matched by a backtracking
  matcher with the priorities of the JavaScript one: alternatives left to right, a greedy
  star tries one more iteration first, a lazy one tries to stop first.
\<close>

datatype citem = CChar char | CRange char char | CSpace | CWord

datatype rx =
    Lit string
  | Dot
  | Cls bool "citem list"
  | Seq rx rx
  | Alt rx rx
  | Star bool rx
  | Grp nat rx
  | Bol
  | Eol
  | Look bool rx

text \<open>
  \<open>Cls True items\<close> is the class \<open>[items]\<close>, \<open>Cls False items\<close> is \<open>[^items]\<close>;
  \<open>Star True r\<close> is \<open>r*\<close>, \<open>Star False r\<close> is \<open>r*?\<close>; \<open>Look True r\<close> is \<open>(?=r)\<close>,
  \<open>Look False r\<close> is \<open>(?!r)\<close>.
\<close>

fun citem_ok :: "citem \<Rightarrow> char \<Rightarrow> bool" where
  "citem_ok (CChar d) c = (c = d)"
| "citem_ok (CRange lo hi) c = in_range lo hi c"
| "citem_ok CSpace c = is_space c"
| "citem_ok CWord c = is_word c"

text \<open>
  The state of the matcher: the char before the position, the text from the position
  on, and for each closed group the text from its start on and the text from its end on.
\<close>

datatype mstate = MState (prev: "char option") (rest: string)
  (caps: "(nat \<times> string \<times> string) list")

definition last_char :: "string \<Rightarrow> char option \<Rightarrow> char option" where
  "last_char w p = (if w = [] then p else Some (last w))"

text \<open>The text between two positions: \<open>s'\<close> is a suffix of \<open>s\<close>.\<close>

definition consumed :: "string \<Rightarrow> string \<Rightarrow> string" where
  "consumed s s' = take (length s - length s') s"

text \<open>Whether a regular expression can match the empty text.\<close>

primrec nullable :: "rx \<Rightarrow> bool" where
  "nullable (Lit w) = (w = [])"
| "nullable Dot = False"
| "nullable (Cls pos items) = False"
| "nullable (Seq a b) = (nullable a \<and> nullable b)"
| "nullable (Alt a b) = (nullable a \<or> nullable b)"
| "nullable (Star g a) = True"
| "nullable (Grp n a) = nullable a"
| "nullable Bol = True"
| "nullable Eol = True"
| "nullable (Look pos a) = True"

text \<open>
  The iterations of a star. An iteration that consumes nothing is not taken, which
  needs a check only where the body can match the empty text (\<open>chk\<close>). The second
  argument bounds the number of iterations and is the text that is left.
\<close>

primrec star :: "(mstate \<Rightarrow> (mstate \<Rightarrow> mstate option) \<Rightarrow> mstate option) \<Rightarrow> string \<Rightarrow> bool \<Rightarrow> bool
    \<Rightarrow> mstate \<Rightarrow> (mstate \<Rightarrow> mstate option) \<Rightarrow> mstate option" where
  "star f [] chk g s k = k s"
| "star f (c # fuel) chk g s k =
     (case s of MState p r cs \<Rightarrow>
        if g
        then (case f s (\<lambda>s'. if chk \<and> rest s' = r then None else star f fuel chk g s' k) of
                Some m \<Rightarrow> Some m
              | None \<Rightarrow> k s)
        else (case k s of
                Some m \<Rightarrow> Some m
              | None \<Rightarrow> f s (\<lambda>s'. if chk \<and> rest s' = r then None else star f fuel chk g s' k)))"

text \<open>
  The matcher, in continuation-passing style: \<open>rxm mf r s k\<close> matches \<open>r\<close> at the state
  \<open>s\<close> and gives each way to do so, in the order of priority, to \<open>k\<close>, until \<open>k\<close>
  succeeds. \<open>mf\<close> is the \<open>m\<close> flag.
\<close>

primrec rxm :: "bool \<Rightarrow> rx \<Rightarrow> mstate \<Rightarrow> (mstate \<Rightarrow> mstate option) \<Rightarrow> mstate option" where
  "rxm mf (Lit w) s k =
     (case s of MState p r cs \<Rightarrow>
        if starts_with w r then k (MState (last_char w p) (drop (length w) r) cs) else None)"
| "rxm mf Dot s k =
     (case s of MState p r cs \<Rightarrow>
        (case r of
           [] \<Rightarrow> None
         | c # r' \<Rightarrow> if is_line_term c then None else k (MState (Some c) r' cs)))"
| "rxm mf (Cls pos items) s k =
     (case s of MState p r cs \<Rightarrow>
        (case r of
           [] \<Rightarrow> None
         | c # r' \<Rightarrow> if list_ex (\<lambda>i. citem_ok i c) items = pos
                     then k (MState (Some c) r' cs) else None))"
| "rxm mf (Seq a b) s k =
     (case s of MState p r cs \<Rightarrow> rxm mf a s (\<lambda>s'. rxm mf b s' k))"
| "rxm mf (Alt a b) s k =
     (case s of MState p r cs \<Rightarrow>
        (case rxm mf a s k of Some m \<Rightarrow> Some m | None \<Rightarrow> rxm mf b s k))"
| "rxm mf (Star g a) s k =
     (case s of MState p r cs \<Rightarrow> star (rxm mf a) r (nullable a) g s k)"
| "rxm mf (Grp n a) s k =
     (case s of MState p r cs \<Rightarrow>
        rxm mf a s (\<lambda>s'. case s' of MState p' r' cs' \<Rightarrow> k (MState p' r' ((n, r, r') # cs'))))"
| "rxm mf Bol s k =
     (case s of MState p r cs \<Rightarrow>
        (case p of
           None \<Rightarrow> k s
         | Some c \<Rightarrow> if mf \<and> is_line_term c then k s else None))"
| "rxm mf Eol s k =
     (case s of MState p r cs \<Rightarrow>
        (case r of
           [] \<Rightarrow> k s
         | c # r' \<Rightarrow> if mf \<and> is_line_term c then k s else None))"
| "rxm mf (Look pos a) s k =
     (case s of MState p r cs \<Rightarrow>
        (case rxm mf a s Some of
           None \<Rightarrow> if pos then None else k s
         | Some s' \<Rightarrow> if pos then k (MState p r (caps s')) else None))"

text \<open>A match: the text before it, the matched text, the groups, the text after it.\<close>

datatype rmatch = RMatch (mbefore: string) (matched: string)
  (groups: "(nat \<times> string \<times> string) list") (mafter: string)

definition group :: "nat \<Rightarrow> rmatch \<Rightarrow> string" where
  "group n m = (case map_of (groups m) n of None \<Rightarrow> [] | Some g \<Rightarrow> consumed (fst g) (snd g))"

text \<open>The leftmost match at or after the current position; \<open>p\<close> is the char before it.\<close>

fun rx_search :: "bool \<Rightarrow> rx \<Rightarrow> char option \<Rightarrow> string \<Rightarrow> rmatch option" where
  "rx_search mf r p [] =
     (case rxm mf r (MState p [] []) Some of
        Some s' \<Rightarrow> Some (RMatch [] [] (caps s') [])
      | None \<Rightarrow> None)"
| "rx_search mf r p (c # cs) =
     (case rxm mf r (MState p (c # cs) []) Some of
        Some s' \<Rightarrow> Some (RMatch [] (consumed (c # cs) (rest s')) (caps s') (rest s'))
      | None \<Rightarrow>
          (case rx_search mf r (Some c) cs of
             None \<Rightarrow> None
           | Some m \<Rightarrow> Some (RMatch (c # mbefore m) (matched m) (groups m) (mafter m))))"

text \<open>\<open>s.match(r)\<close> without the \<open>g\<close> flag; \<open>mf\<close> is the \<open>m\<close> flag.\<close>

definition js_match :: "bool \<Rightarrow> rx \<Rightarrow> string \<Rightarrow> rmatch option" where
  "js_match mf r s = rx_search mf r None s"

text \<open>\<open>r.test(s)\<close>, and \<open>s.match(r)\<close> used as a condition.\<close>

definition js_test :: "bool \<Rightarrow> rx \<Rightarrow> string \<Rightarrow> bool" where
  "js_test mf r s = (js_match mf r s \<noteq> None)"

text \<open>
  The successive matches of a \<open>g\<close> regular expression, each with the text between it
  and the match before, and the text after the last one. After an empty match the scan
  moves one char on. The first argument bounds the number of matches.
\<close>

definition push_char :: "char \<Rightarrow> (string \<times> string) list \<times> string \<Rightarrow> (string \<times> string) list \<times> string" where
  "push_char c r =
     (case fst r of
        [] \<Rightarrow> ([], c # snd r)
      | bx # ms \<Rightarrow> ((c # fst bx, snd bx) # ms, snd r))"

primrec rx_scan :: "string \<Rightarrow> bool \<Rightarrow> rx \<Rightarrow> char option \<Rightarrow> string \<Rightarrow> (string \<times> string) list \<times> string" where
  "rx_scan [] mf r p s = ([], s)"
| "rx_scan (f # fuel) mf r p s =
     (case rx_search mf r p s of
        None \<Rightarrow> ([], s)
      | Some m \<Rightarrow>
          (if matched m \<noteq> []
           then (let res = rx_scan fuel mf r (last_char (mbefore m @ matched m) p) (mafter m)
                 in ((mbefore m, matched m) # fst res, snd res))
           else (case mafter m of
                   [] \<Rightarrow> ([(mbefore m, [])], [])
                 | c # cs \<Rightarrow>
                     (let res = push_char c (rx_scan fuel mf r (Some c) cs)
                      in ((mbefore m, []) # fst res, snd res)))))"

text \<open>\<open>s.match(r)\<close> with the \<open>g\<close> flag: the matched texts (\<open>[]\<close> is \<open>null\<close>).\<close>

definition js_match_all :: "bool \<Rightarrow> rx \<Rightarrow> string \<Rightarrow> string list" where
  "js_match_all mf r s = map snd (fst (rx_scan (CHR '' '' # s) mf r None s))"

text \<open>
  \<open>s.replace(r, t)\<close> with the \<open>g\<close> flag. Every replacement text the source gives to a
  regular expression is free of \<open>$\<close>, so it is copied as it is.
\<close>

definition js_replace_all :: "bool \<Rightarrow> rx \<Rightarrow> string \<Rightarrow> string \<Rightarrow> string" where
  "js_replace_all mf r t s =
     (let res = rx_scan (CHR '' '' # s) mf r None s
      in concat (map (\<lambda>bx. fst bx @ t) (fst res)) @ snd res)"

text \<open>\<open>s.replace(r, t)\<close> without the \<open>g\<close> flag: the first match only.\<close>

definition js_replace :: "bool \<Rightarrow> rx \<Rightarrow> string \<Rightarrow> string \<Rightarrow> string" where
  "js_replace mf r t s =
     (case js_match mf r s of
        None \<Rightarrow> s
      | Some m \<Rightarrow> mbefore m @ t @ mafter m)"

text \<open>Shorthands for the quantifiers and classes the source writes.\<close>

definition Plus :: "bool \<Rightarrow> rx \<Rightarrow> rx" where
  "Plus g r = Seq r (Star g r)"

definition Sp :: rx where
  "Sp = Cls True [CSpace]"

definition Chr :: "char \<Rightarrow> rx" where
  "Chr c = Lit [c]"

definition AlNum :: rx where
  "AlNum = Cls True [CRange CHR ''a'' CHR ''z'', CRange CHR ''A'' CHR ''Z'', CRange CHR ''0'' CHR ''9'']"

fun Seqs :: "rx list \<Rightarrow> rx" where
  "Seqs [] = Lit []"
| "Seqs [r] = r"
| "Seqs (r # rs) = Seq r (Seqs rs)"

section \<open>Generic names\<close>

text \<open>\<open>GENERICTYPEREGEX = /<(.*?)>/\<close>\<close>

definition GENERICTYPEREGEX :: rx where
  "GENERICTYPEREGEX = Seqs [Chr CHR ''<'', Grp 1 (Star False Dot), Chr CHR ''>'']"

text \<open>\<open>genericDefaultNameAlias\<close>: \<open>Paged<Product>\<close> gives \<open>PagedProduct\<close>.\<close>

definition genericDefaultNameAlias :: "string \<Rightarrow> string" where
  "genericDefaultNameAlias genName =
     (if genName = [] then []
      else (case js_match False GENERICTYPEREGEX genName of
              Some m \<Rightarrow>
                hd (js_split (matched m) genName)
                  @ js_join [] (map js_trim (js_split '','' (group 1 m)))
            | None \<Rightarrow> genName))"

text \<open>\<open>SANITIZE_GEN_TYPE_REGEX = /^\[|\s|\](\s*)(!*)(\s*)$|!/g\<close>\<close>

definition SANITIZE_GEN_TYPE_REGEX :: rx where
  "SANITIZE_GEN_TYPE_REGEX =
     Alt (Seq Bol (Chr CHR ''[''))
    (Alt Sp
    (Alt (Seqs [Chr CHR '']'', Grp 1 (Star True Sp), Grp 2 (Star True (Chr CHR ''!'')),
                Grp 3 (Star True Sp), Eol])
         (Chr CHR ''!'')))"

text \<open>
  An argument of the exported \<open>isTypeGeneric\<close>: a string, \<open>null\<close> or \<open>undefined\<close>
  (the documented parameter type is String).
\<close>

datatype jsarg = JNull | JUndefined | JStr string

text \<open>\<open>x ? x.replace(SANITIZE_GEN_TYPE_REGEX, '') : x\<close>\<close>

fun sanitize :: "jsarg \<Rightarrow> jsarg" where
  "sanitize (JStr s) = (if s = [] then JStr s else JStr (js_replace_all False SANITIZE_GEN_TYPE_REGEX [] s))"
| "sanitize a = a"

text \<open>Truthiness of such an argument: \<open>null\<close>, \<open>undefined\<close> and \<open>''\<close> are falsy.\<close>

fun truthy :: "jsarg \<Rightarrow> bool" where
  "truthy (JStr s) = (s \<noteq> [])"
| "truthy a = False"

fun str_of :: "jsarg \<Rightarrow> string" where
  "str_of (JStr s) = s"
| "str_of a = []"

text \<open>\<open>i > 0\<close> for the result of \<open>indexOf\<close>.\<close>

definition index_pos :: "nat option \<Rightarrow> bool" where
  "index_pos i = (case i of None \<Rightarrow> False | Some n \<Rightarrow> 0 < n)"

definition isTypeGeneric :: "jsarg \<Rightarrow> jsarg \<Rightarrow> bool" where
  "isTypeGeneric type genericLetter =
     (let sanitizedType = sanitize type;
          sanitizedgenericLetter = sanitize genericLetter
      in if \<not> truthy sanitizedType \<or> \<not> truthy sanitizedgenericLetter then False
         else if sanitizedType = sanitizedgenericLetter then True
         else if index_pos (js_indexOf ''<'' (str_of sanitizedType))
                 \<and> index_pos (js_indexOf ''>'' (str_of sanitizedType))
         then (let genericLetters = js_split '','' (str_of sanitizedgenericLetter)
               in list_ex (\<lambda>x. list_ex (\<lambda>y. y = js_trim x) genericLetters)
                    (js_split '',''
                       (case js_match False GENERICTYPEREGEX (str_of sanitizedType) of
                          None \<Rightarrow> []
                        | Some m \<Rightarrow> group 1 m)))
         else list_ex (\<lambda>x. js_trim x = str_of sanitizedType)
                (js_split '','' (str_of sanitizedgenericLetter)))"

section \<open>Data model\<close>

datatype kind = KType | KInput | KEnum | KInterface | KAbstract | KScalar | KUnion | KDirective

text \<open>\<open>obj.type\<close> as the text the source compares and prints, and \<open>obj.type.toLowerCase()\<close>.\<close>

fun kind_upper :: "kind \<Rightarrow> string" where
  "kind_upper KType = ''TYPE''"
| "kind_upper KInput = ''INPUT''"
| "kind_upper KEnum = ''ENUM''"
| "kind_upper KInterface = ''INTERFACE''"
| "kind_upper KAbstract = ''ABSTRACT''"
| "kind_upper KScalar = ''SCALAR''"
| "kind_upper KUnion = ''UNION''"
| "kind_upper KDirective = ''DIRECTIVE''"

fun kind_lower :: "kind \<Rightarrow> string" where
  "kind_lower KType = ''type''"
| "kind_lower KInput = ''input''"
| "kind_lower KEnum = ''enum''"
| "kind_lower KInterface = ''interface''"
| "kind_lower KAbstract = ''abstract''"
| "kind_lower KScalar = ''scalar''"
| "kind_lower KUnion = ''union''"
| "kind_lower KDirective = ''directive''"

text \<open>
  A metadata object of the annotation extractor, which is outside this module:
  \<open>{ name, body, schemaType, schemaName, parent: { type, name }, directive }\<close>.
  An absent \<open>body\<close> is the empty text, an absent \<open>parent\<close> is \<open>None\<close>.
\<close>

record metadata =
  md_name :: string
  md_body :: string
  md_schemaType :: string
  md_schemaName :: string
  md_parent :: "(string \<times> string) option"
  md_directive :: bool

text \<open>
  The result of \<open>getTypeDetails\<close>, also the objects that \<open>getTranspiledParams\<close> and
  \<open>createNewSchemaObjectFromGeneric\<close> build in its place. \<open>None\<close> is a field that the
  object does not have (\<open>undefined\<close>) or that is \<open>null\<close>.
\<close>

record typeRef =
  r_paramName :: "string option"
  r_originName :: "string option"
  r_directive :: "string option"
  r_isGen :: "bool option"
  r_dependsOnParent :: bool
  r_metadata :: "metadata list"
  r_genericParentTypes :: "string list option"
  r_name :: string

record details =
  d_name :: string
  d_metadata :: "metadata option"
  d_params :: "string option"
  d_result :: typeRef

record blockProp =
  p_comments :: string
  p_details :: details
  p_value :: string

text \<open>\<open>genericType\<close> is \<open>null\<close>, \<open>false\<close> (scalars and unions) or the text between the angle brackets.\<close>

datatype gtype = GNull | GFalse | GStr string

fun gtype_truthy :: "gtype \<Rightarrow> bool" where
  "gtype_truthy (GStr s) = (s \<noteq> [])"
| "gtype_truthy g = False"

text \<open>\<open>`${genericType}`\<close>\<close>

fun gtype_text :: "gtype \<Rightarrow> string" where
  "gtype_text GNull = ''null''"
| "gtype_text GFalse = ''false''"
| "gtype_text (GStr s) = s"

text \<open>
  \<open>inherits\<close> of a parsed declaration is the list of the names it inherits. In a
  declaration that \<open>getObjWithExtensions\<close> has merged, the source stores the merged parent
  objects there; no function reads them back, and the model records them by name.
\<close>

datatype inh = Names "string list" | Parents "string list"

record schemaObj =
  o_type :: kind
  o_extend :: "bool option"
  o_name :: string
  o_metadata :: "metadata option"
  o_directive :: "string option"
  o_genericType :: gtype
  o_blockProps :: "blockProp list"
  o_inherits :: "inh option"
  o_implements :: "string list option"
  o_originalBlockProps :: "blockProp list option"
  o_comments :: "string option"
  o_raw :: "string option"

text \<open>The fragments of \<open>getSchemaBits\<close>: \<open>block\<close> is a list of lines, or a text for scalars and unions.\<close>

datatype blockVal = BlockLines "string list" | BlockText string

record schemaBit =
  b_property :: string
  b_block :: blockVal
  b_extend :: bool

section \<open>Errors, memory and the collaborators\<close>

text \<open>
  One constructor for each \<open>throw\<close> of the source, with the values its message prints;
  \<open>TypeError\<close> is the engine's own error on reading a property of \<open>null\<close> or
  \<open>undefined\<close>, with the function it happens in.
\<close>

datatype error =
    MissingBlock
  | MismatchLettersConcrete string string
  | MismatchLettersGeneric string string
  | MismatchTypes string string
  | SyntaxErrorIn string
  | MissingName string
  | CannotFindInherited kind string string
  | CannotInherit kind string kind string
  | InterfaceNotDefined string
  | NotAnInterface string
  | CannotFindGenericType string
  | NoDefinitionForGeneric string
  | NotGeneric string
  | EvalError string
  | TypeError string

text \<open>
  The outcome of a call: a value, a thrown error, or \<open>Diverge\<close> when the recursion of the
  source goes deeper than the fuel.
\<close>

datatype 'a res = Ok 'a | Throw error | Diverge

text \<open>
  The module's memoization variables. The objects used as dictionaries are association
  lists in insertion order; \<open>js_get\<close> below reads them and \<open>js_entries\<close> enumerates them.
\<close>

record memory =
  escCache :: "(string \<times> string) list"
  memoizedGenericNameAliases :: "(string \<times> string) list"
  memoizedAliases :: "metadata list option"
  memoizedGenericSchemaObjects :: "(string \<times> typeRef) list"
  memoizedExtendedObject :: "(string \<times> schemaObj) list"
  memoizedInterfaceWithAncestors :: "(string \<times> string list) list"

definition emptyMemory :: memory where
  "emptyMemory = \<lparr> escCache = [], memoizedGenericNameAliases = [], memoizedAliases = None,
     memoizedGenericSchemaObjects = [], memoizedExtendedObject = [],
     memoizedInterfaceWithAncestors = [] \<rparr>"

text \<open>\<open>obj[k] = v\<close>: a new key goes to the end, an old key keeps its place.\<close>

fun al_set :: "'k \<Rightarrow> 'v \<Rightarrow> ('k \<times> 'v) list \<Rightarrow> ('k \<times> 'v) list" where
  "al_set k v [] = [(k, v)]"
| "al_set k v (kv # al) = (if fst kv = k then (k, v) # al else kv # al_set k v al)"

text \<open>
  The dictionaries are plain objects (\<open>{}\<close>), so \<open>obj[k]\<close> for a key that the object does
  not own is the property of \<open>Object.prototype\<close> of that name, when there is one. These are
  the names; every one of the properties is truthy (eleven functions, and the object
  \<open>Object.prototype\<close> itself for \<open>__proto__\<close>). The source writes a key only after it has
  read it as falsy, so it never writes one of these.
\<close>

definition objectPrototypeKeys :: "string list" where
  "objectPrototypeKeys =
     [''constructor'', ''__defineGetter__'', ''__defineSetter__'', ''hasOwnProperty'',
      ''__lookupGetter__'', ''__lookupSetter__'', ''isPrototypeOf'', ''propertyIsEnumerable'',
      ''toString'', ''valueOf'', ''__proto__'', ''toLocaleString'']"

datatype 'a lookup = Own 'a | Inherited | Absent

definition js_get :: "(string \<times> 'a) list \<Rightarrow> string \<Rightarrow> 'a lookup" where
  "js_get al k =
     (case map_of al k of
        Some v \<Rightarrow> Own v
      | None \<Rightarrow> if k \<in> set objectPrototypeKeys then Inherited else Absent)"

text \<open>
  The text of an inherited property where the source puts it into a template literal or
  joins it: \<open>function toString() { [native code] }\<close> for a function (the constructor is
  the function \<open>Object\<close>) and \<open>[object Object]\<close> for \<open>Object.prototype\<close>, as Node prints them.
  Each of them has a space in it, and they differ for different names.
\<close>

definition inheritedText :: "string \<Rightarrow> string" where
  "inheritedText k =
     (if k = ''__proto__'' then ''[object Object]''
      else ''function '' @ (if k = ''constructor'' then ''Object'' else k) @ ''() { [native code] }'')"

text \<open>
  The order in which the keys of an object are enumerated: first the keys that are array
  indices (the decimal text, without leading zero, of a number below \<open>2^32 - 1\<close>) by
  increasing number, then the other keys in the order in which they were written. Two
  such texts compare as their numbers do: the shorter is the smaller, and texts of one
  length compare digit by digit.
\<close>

fun digits_less :: "string \<Rightarrow> string \<Rightarrow> bool" where
  "digits_less [] bs = False"
| "digits_less (a # as) [] = False"
| "digits_less (a # as) (b # bs) =
     (if (of_char a :: nat) < of_char b then True
      else if a = b then digits_less as bs
      else False)"

definition index_less :: "string \<Rightarrow> string \<Rightarrow> bool" where
  "index_less a b = (if length a = length b then digits_less a b else length a < length b)"

definition is_array_index :: "string \<Rightarrow> bool" where
  "is_array_index k =
     (k \<noteq> [] \<and> list_all (\<lambda>c. in_range CHR ''0'' CHR ''9'' c) k
      \<and> (length k = 1 \<or> hd k \<noteq> CHR ''0'') \<and> index_less k ''4294967295'')"

fun insert_entry :: "string \<times> 'a \<Rightarrow> (string \<times> 'a) list \<Rightarrow> (string \<times> 'a) list" where
  "insert_entry kv [] = [kv]"
| "insert_entry kv (x # xs) =
     (if index_less (fst kv) (fst x) then kv # x # xs else x # insert_entry kv xs)"

definition js_entries :: "(string \<times> 'a) list \<Rightarrow> (string \<times> 'a) list" where
  "js_entries al =
     foldr insert_entry (filter (\<lambda>kv. is_array_index (fst kv)) al) []
     @ filter (\<lambda>kv. \<not> is_array_index (fst kv)) al"

text \<open>
  What this module takes from \<open>./utilities\<close> and \<open>./graphmetadata\<close>, whose code is not
  part of it: the escaper, the generator of comment tokens (\<open>newShortId i\<close> is the id
  of the \<open>i\<close>-th comment of a call), the metadata extractor, and the engine's \<open>eval\<close> on
  the call text of a user alias (taken as free of effects on the memory).
  \<open>chain(v).next(f).val()\<close> is \<open>f(v)\<close> and \<open>log\<close> only prints.
\<close>

record env =
  escapeGraphQlSchema :: "string \<Rightarrow> string \<Rightarrow> string \<Rightarrow> string"
  newShortId :: "nat \<Rightarrow> string"
  removeGraphMetadata :: "string \<Rightarrow> string \<times> metadata list"
  evalJs :: "string \<Rightarrow> error + string"

text \<open>Computations on the memory that may throw.\<close>

type_synonym 'a M = "memory \<Rightarrow> 'a res \<times> memory"

definition ret :: "'a \<Rightarrow> 'a M" where
  "ret x = (\<lambda>m. (Ok x, m))"

definition throw :: "error \<Rightarrow> 'a M" where
  "throw e = (\<lambda>m. (Throw e, m))"

definition diverge :: "'a M" where
  "diverge = (\<lambda>m. (Diverge, m))"

definition bind :: "'a M \<Rightarrow> ('a \<Rightarrow> 'b M) \<Rightarrow> 'b M" where
  "bind f k = (\<lambda>m.
     case f m of
       (Ok x, m') \<Rightarrow> k x m'
     | (Throw e, m') \<Rightarrow> (Throw e, m')
     | (Diverge, m') \<Rightarrow> (Diverge, m'))"

text \<open>\<open>xs.map(f)\<close> where \<open>f\<close> may throw or write the memory: left to right.\<close>

fun mapM :: "('a \<Rightarrow> 'b M) \<Rightarrow> 'a list \<Rightarrow> 'b list M" where
  "mapM f [] = ret []"
| "mapM f (x # xs) = bind (f x) (\<lambda>y. bind (mapM f xs) (\<lambda>ys. ret (y # ys)))"

text \<open>\<open>xs.reduce(f, a)\<close> and \<open>xs.forEach\<close> with an accumulator.\<close>

fun foldM :: "('b \<Rightarrow> 'a \<Rightarrow> 'b M) \<Rightarrow> 'b \<Rightarrow> 'a list \<Rightarrow> 'b M" where
  "foldM f a [] = ret a"
| "foldM f a (x # xs) = bind (f a x) (\<lambda>a'. foldM f a' xs)"

section \<open>The escaped text and its fragments\<close>

text \<open>
  \<open>escapeGraphQlSchemaPlus\<close>, always called with the two markers of this module. For a
  text that is the name of a property of \<open>Object.prototype\<close> the source returns that
  property, which is no string: \<open>None\<close>.
\<close>

definition escapeGraphQlSchemaPlus :: "env \<Rightarrow> string \<Rightarrow> memory \<Rightarrow> string option \<times> memory" where
  "escapeGraphQlSchemaPlus E sch m =
     (if sch = [] then (Some sch, m)
      else (case js_get (escCache m) sch of
              Own v \<Rightarrow>
                (if v \<noteq> [] then (Some v, m)
                 else (Some (escapeGraphQlSchema E sch carrReturnEsc tabEsc),
                       m\<lparr>escCache := al_set sch (escapeGraphQlSchema E sch carrReturnEsc tabEsc) (escCache m)\<rparr>))
            | Inherited \<Rightarrow> (None, m)
            | Absent \<Rightarrow>
                (Some (escapeGraphQlSchema E sch carrReturnEsc tabEsc),
                 m\<lparr>escCache := al_set sch (escapeGraphQlSchema E sch carrReturnEsc tabEsc) (escCache m)\<rparr>)))"

text \<open>The block of a declaration: \<open>{(.*?)\<marker>([^#]*?)}\<close>, with the line-break marker.\<close>

definition BLOCK :: "rx list" where
  "BLOCK = [Chr CHR ''{'', Grp 3 (Star False Dot), Lit carrReturnEsc,
            Grp 4 (Star False (Cls False [CChar CHR ''#''])), Chr CHR ''}'']"

definition TYPE_REGEX :: rx where
  "TYPE_REGEX = Seqs ([Grp 1 (Alt (Lit ''extend type'') (Lit ''type'')), Sp,
                       Grp 2 (Star False Dot)] @ BLOCK)"

definition INPUT_REGEX :: rx where
  "INPUT_REGEX = Seqs ([Grp 1 (Alt (Lit ''extend input'') (Lit ''input'')), Sp,
                        Grp 2 (Star False Dot)] @ BLOCK)"

definition ENUM_REGEX :: rx where
  "ENUM_REGEX = Seqs ([Lit ''enum'', Sp, Grp 2 (Star False Dot)] @ BLOCK)"

definition INTERFACE_REGEX :: rx where
  "INTERFACE_REGEX = Seqs ([Grp 1 (Alt (Lit ''extend interface'') (Lit ''interface'')), Sp,
                            Grp 2 (Star False Dot)] @ BLOCK)"

definition ABSTRACT_REGEX :: rx where
  "ABSTRACT_REGEX = Seqs ([Grp 1 (Alt (Lit ''extend abstract'') (Lit ''abstract'')), Sp,
                           Grp 2 (Star False Dot)] @ BLOCK)"

text \<open>\<open>/(.{1}|.{0})scalar\s(.*?)([^\s]*?)(?![a-zA-Z0-9])/mg\<close>\<close>

definition SCALAR_REGEX :: rx where
  "SCALAR_REGEX = Seqs [Grp 1 (Alt Dot (Lit [])), Lit ''scalar'', Sp, Grp 2 (Star False Dot),
                        Grp 3 (Star False (Cls False [CSpace])), Look False AlNum]"

text \<open>\<open>/(.{1}|.{0})union([^\n]*?)\n/gm\<close>\<close>

definition UNION_REGEX :: rx where
  "UNION_REGEX = Seqs [Grp 1 (Alt Dot (Lit [])), Lit ''union'',
                       Grp 2 (Star False (Cls False [CChar CHR 0x0A])), Chr CHR 0x0A]"

text \<open>\<open>/#(.*?)\<marker>/g\<close>, a comment up to the line-break marker, and \<open>/#(.*?)\n/g\<close>.\<close>

definition COMMENT_ESC :: rx where
  "COMMENT_ESC = Seqs [Chr CHR ''#'', Grp 1 (Star False Dot), Lit carrReturnEsc]"

definition COMMENT_NL :: rx where
  "COMMENT_NL = Seqs [Chr CHR ''#'', Grp 1 (Star False Dot), Chr CHR 0x0A]"

text \<open>\<open>/ +(?= )/g\<close>: the spaces that a space follows.\<close>

definition SPACES_BEFORE_SPACE :: rx where
  "SPACES_BEFORE_SPACE = Seq (Plus True (Chr CHR '' '')) (Look True (Chr CHR '' ''))"

definition breakdownSchemabBit :: "string \<Rightarrow> error + schemaBit" where
  "breakdownSchemabBit str =
     (case js_match False (Seqs BLOCK) str of
        None \<Rightarrow> Inl MissingBlock
      | Some blockMatch \<Rightarrow>
          (let block = filter (\<lambda>x. x \<noteq> [])
                 (map js_trim
                   (js_split carrReturnEsc
                     (js_replace False (Seq (Chr CHR ''}'') Eol) []
                       (js_replace False (Seq Bol (Chr CHR ''{'')) []
                         (js_replace_all False (Lit tabEsc) [] (matched blockMatch))))));
               rawProperty = js_trim
                 (js_replace_all False SPACES_BEFORE_SPACE []
                   (js_join '' '' (js_split tabEsc (js_join '' '' (js_split carrReturnEsc str)))))
           in if js_indexOf ''extend'' rawProperty = Some 0
              then Inr \<lparr> b_property = js_replace_str ''extend '' [] rawProperty,
                         b_block = BlockLines block, b_extend = True \<rparr>
              else Inr \<lparr> b_property = rawProperty, b_block = BlockLines block, b_extend = False \<rparr>))"

text \<open>\<open>str.split(' ').slice(-1)[0]\<close>: the last piece.\<close>

definition breakdownScalarBit :: "string \<Rightarrow> schemaBit" where
  "breakdownScalarBit str =
     (let block = last (js_split '' '' str)
      in \<lparr> b_property = ''scalar '' @ block, b_block = BlockText block, b_extend = False \<rparr>)"

text \<open>\<open>/(^union\s|\sunion\s|\n)/g\<close>\<close>

definition UNION_STRIP :: rx where
  "UNION_STRIP = Grp 1 (Alt (Seqs [Bol, Lit ''union'', Sp])
                       (Alt (Seqs [Sp, Lit ''union'', Sp]) (Chr CHR 0x0A)))"

definition breakdownUnionBit :: "string \<Rightarrow> schemaBit" where
  "breakdownUnionBit str =
     (let block = js_trim (js_replace_all False UNION_STRIP [] str)
      in \<lparr> b_property = ''union '' @ block, b_block = BlockText block, b_extend = False \<rparr>)"

text \<open>
  The seven scans of \<open>getSchemaBits\<close>, in its order. Scalars are looked for in the
  escaped text without comments, unions in the unescaped one, blocks in the escaped
  text whose comments are replaced by tokens.
\<close>

datatype scan = ScanBlock | ScanScalar | ScanUnion

definition scans :: "(rx \<times> scan) list" where
  "scans = [(TYPE_REGEX, ScanBlock), (INPUT_REGEX, ScanBlock), (ENUM_REGEX, ScanBlock),
            (INTERFACE_REGEX, ScanBlock), (ABSTRACT_REGEX, ScanBlock),
            (SCALAR_REGEX, ScanScalar), (UNION_REGEX, ScanUnion)]"

text \<open>\<open>m.indexOf(word) == 0 || m.match(/^(?![a-zA-Z0-9])/)\<close>\<close>

definition keepMatch :: "string \<Rightarrow> string \<Rightarrow> bool" where
  "keepMatch word m = (js_indexOf word m = Some 0 \<or> js_test False (Seq Bol (Look False AlNum)) m)"

text \<open>The comments are replaced by tokens, one after the other.\<close>

fun escapeComments :: "env \<Rightarrow> nat \<Rightarrow> string list \<Rightarrow> string \<times> (string \<times> string) list
    \<Rightarrow> string \<times> (string \<times> string) list" where
  "escapeComments E i [] acc = acc"
| "escapeComments E i (c # cs) acc =
     (let commentToken = ''#'' @ newShortId E i @ carrReturnEsc
      in escapeComments E (Suc i) cs
           (js_replace_str c commentToken (fst acc), snd acc @ [(commentToken, c)]))"

text \<open>The tokens of a match are replaced by the comments they stand for.\<close>

definition restoreComments :: "(string \<times> string) list \<Rightarrow> string \<Rightarrow> string" where
  "restoreComments tokens b =
     foldl (\<lambda>acc t. case map_of tokens t of
                       Some v \<Rightarrow> (if v \<noteq> [] then js_replace_str t v acc else acc)
                     | None \<Rightarrow> acc)
           b (js_match_all False COMMENT_ESC b)"

text \<open>\<open>regexMatches.map(str => transform(str))\<close>: the first fragment without a block throws.\<close>

fun breakdownAll :: "string list \<Rightarrow> error + schemaBit list" where
  "breakdownAll [] = Inr []"
| "breakdownAll (str # strs) =
     (case breakdownSchemabBit str of
        Inl e \<Rightarrow> Inl e
      | Inr b \<Rightarrow> (case breakdownAll strs of Inl e \<Rightarrow> Inl e | Inr bs \<Rightarrow> Inr (b # bs)))"

definition scanBits :: "string \<Rightarrow> string \<Rightarrow> string \<Rightarrow> (string \<times> string) list \<Rightarrow> rx \<times> scan
    \<Rightarrow> error + schemaBit list" where
  "scanBits escSchemaWithEscComments escapedSchemaWithoutComments schemaWithoutComments tokens rxk =
     (case snd rxk of
        ScanScalar \<Rightarrow>
          Inr (map breakdownScalarBit
                (map (restoreComments tokens)
                  (filter (keepMatch ''scalar'')
                    (js_match_all True (fst rxk) escapedSchemaWithoutComments))))
      | ScanUnion \<Rightarrow>
          Inr (map breakdownUnionBit
                (map (restoreComments tokens)
                  (filter (keepMatch ''union'')
                    (js_match_all True (fst rxk) schemaWithoutComments))))
      | ScanBlock \<Rightarrow>
          breakdownAll
            (map (restoreComments tokens)
              (js_match_all True (fst rxk) escSchemaWithEscComments)))"

fun scanAll :: "string \<Rightarrow> string \<Rightarrow> string \<Rightarrow> (string \<times> string) list \<Rightarrow> (rx \<times> scan) list
    \<Rightarrow> error + schemaBit list" where
  "scanAll a b c tokens [] = Inr []"
| "scanAll a b c tokens (rxk # rxks) =
     (case scanBits a b c tokens rxk of
        Inl e \<Rightarrow> Inl e
      | Inr bs \<Rightarrow> (case scanAll a b c tokens rxks of Inl e \<Rightarrow> Inl e | Inr bs' \<Rightarrow> Inr (bs @ bs')))"

text \<open>
  \<open>getSchemaBits\<close>. An escaped text that is no string has no \<open>match\<close> to call: the engine
  throws. The text without comments begins with a space, so it is never the name of an
  inherited property.
\<close>

definition getSchemaBits :: "env \<Rightarrow> string \<Rightarrow> schemaBit list M" where
  "getSchemaBits E sch = (\<lambda>m.
     let r1 = escapeGraphQlSchemaPlus E sch m
     in case fst r1 of
          None \<Rightarrow> (Throw (TypeError ''getSchemaBits''), snd r1)
        | Some escapedSchemaWithComments \<Rightarrow>
            (let acc = escapeComments E 0 (js_match_all False COMMENT_ESC escapedSchemaWithComments)
                         (escapedSchemaWithComments, []);
                 schemaWithoutComments = '' '' @ js_replace_all False COMMENT_NL [] sch @ [CHR 0x0A];
                 r2 = escapeGraphQlSchemaPlus E schemaWithoutComments (snd r1)
             in case fst r2 of
                  None \<Rightarrow> (Throw (TypeError ''getSchemaBits''), snd r2)
                | Some escapedSchemaWithoutComments \<Rightarrow>
                    (case scanAll (fst acc) escapedSchemaWithoutComments schemaWithoutComments
                            (snd acc) scans of
                       Inl e \<Rightarrow> (Throw e, snd r2)
                     | Inr bs \<Rightarrow> (Ok bs, snd r2))))"

section \<open>Type references\<close>

text \<open>\<open>/.*</\<close>, \<open>/@.+/\<close>, \<open>/!$/\<close>\<close>

definition UP_TO_LT :: rx where
  "UP_TO_LT = Seq (Star True Dot) (Chr CHR ''<'')"

definition AT_REST :: rx where
  "AT_REST = Seq (Chr CHR ''@'') (Plus True Dot)"

definition BANG_END :: rx where
  "BANG_END = Seq (Chr CHR ''!'') Eol"

definition getAllAliases :: "metadata list \<Rightarrow> metadata list M" where
  "getAllAliases md = (\<lambda>m.
     case memoizedAliases m of
       Some aliases \<Rightarrow> (Ok aliases, m)
     | None \<Rightarrow> (Ok (filter (\<lambda>x. md_name x = ''alias'') md),
                 m\<lparr>memoizedAliases := Some (filter (\<lambda>x. md_name x = ''alias'') md)\<rparr>))"

text \<open>
  \<open>getGenericAlias(s)(genName)\<close> for a non-empty \<open>s\<close>: the engine evaluates the text
  \<open>s("A","B")\<close>.
\<close>

definition getGenericAlias :: "env \<Rightarrow> string \<Rightarrow> string \<Rightarrow> string M" where
  "getGenericAlias E s genName =
     (case js_match False GENERICTYPEREGEX genName of
        Some m \<Rightarrow>
          (case evalJs E (s @ ''('' @ js_join '',''
                   (map (\<lambda>x. [CHR 0x22] @ js_trim x @ [CHR 0x22]) (js_split '','' (group 1 m)))
                 @ '')'') of
             Inl e \<Rightarrow> throw e
           | Inr v \<Rightarrow> ret v)
      | None \<Rightarrow> ret genName)"

text \<open>
  \<open>getAliasName\<close>. Both callers put the result into a template literal, so an inherited
  property is returned as its text.
\<close>

definition getAliasName :: "env \<Rightarrow> string \<Rightarrow> metadata list \<Rightarrow> string M" where
  "getAliasName E genericType md = (\<lambda>m.
     case (case js_get (memoizedGenericNameAliases m) genericType of
             Own a \<Rightarrow> (if a \<noteq> [] then Some a else None)
           | Inherited \<Rightarrow> Some (inheritedText genericType)
           | Absent \<Rightarrow> None) of
       Some a \<Rightarrow> (Ok a, m)
     | None \<Rightarrow>
         (case js_match False UP_TO_LT genericType of
            None \<Rightarrow> (Throw (TypeError ''getAliasName''), m)
          | Some gm \<Rightarrow>
              bind (getAllAliases md) (\<lambda>aliases.
              bind (case find (\<lambda>x. js_indexOf (matched gm) (md_schemaName x) = Some 0) aliases of
                      Some aliasObj \<Rightarrow>
                        (if md_body aliasObj \<noteq> [] then getGenericAlias E (md_body aliasObj) genericType
                         else ret (genericDefaultNameAlias genericType))
                    | None \<Rightarrow> ret (genericDefaultNameAlias genericType)) (\<lambda>alias m'.
                (Ok alias,
                 m'\<lparr>memoizedGenericNameAliases :=
                      al_set genericType alias (memoizedGenericNameAliases m')\<rparr>))) m))"

text \<open>\<open>if (result.isGen && !memoizedGenericSchemaObjects[result.name]) ...[result.name] = result\<close>\<close>

definition rememberGeneric :: "typeRef \<Rightarrow> typeRef M" where
  "rememberGeneric result = (\<lambda>m.
     if r_isGen result = Some True \<and> js_get (memoizedGenericSchemaObjects m) (r_name result) = Absent
     then (Ok result, m\<lparr>memoizedGenericSchemaObjects :=
                           al_set (r_name result) result (memoizedGenericSchemaObjects m)\<rparr>)
     else (Ok result, m))"

text \<open>\<open>genericTypes.some(x => genericParentTypes.some(y => x == y))\<close> behind its guards.\<close>

definition dependsOn :: "bool \<Rightarrow> string list option \<Rightarrow> string list \<Rightarrow> bool" where
  "dependsOn isGen genericParentTypes genericTypes =
     (isGen \<and> (case genericParentTypes of
                  None \<Rightarrow> False
                | Some ps \<Rightarrow> ps \<noteq> [] \<and> list_ex (\<lambda>x. list_ex (\<lambda>y. x = y) ps) genericTypes))"

definition getTypeDetails :: "env \<Rightarrow> string \<Rightarrow> metadata list \<Rightarrow> string list option \<Rightarrow> typeRef M" where
  "getTypeDetails E t md genericParentTypes =
     (let genTypes = (case js_match False GENERICTYPEREGEX t of None \<Rightarrow> [] | Some m \<Rightarrow> group 1 m);
          isGen = (genTypes \<noteq> []);
          genericTypes = (if isGen then map js_trim (js_split '','' genTypes) else []);
          originName = js_trim (js_replace False AT_REST [] t);
          directive = map_option matched (js_match False AT_REST t);
          endingChar = (if js_test False BANG_END originName then ''!'' else []);
          dependsOnParent = dependsOn isGen genericParentTypes genericTypes
      in bind (if isGen \<and> \<not> dependsOnParent
               then bind (getAliasName E originName md) (\<lambda>a. ret (a @ endingChar))
               else ret originName) (\<lambda>nm.
         rememberGeneric
           \<lparr> r_paramName = None, r_originName = Some originName, r_directive = directive,
             r_isGen = Some isGen, r_dependsOnParent = dependsOnParent, r_metadata = md,
             r_genericParentTypes = genericParentTypes, r_name = nm \<rparr>))"

text \<open>One parameter of \<open>getTranspiledParams\<close>; \<open>genTypes\<close> is the list of all of them.\<close>

definition transpileParam :: "env \<Rightarrow> string list \<Rightarrow> string list option \<Rightarrow> string \<Rightarrow> string M" where
  "transpileParam E genTypes genericParentTypes genType =
     (let isGen = js_test False GENERICTYPEREGEX genType;
          genericTypes = (if isGen then map js_trim genTypes else []);
          pieces = map js_trim (js_split '':'' genType);
          paramName = hd pieces
      in case tl pieces of
           [] \<Rightarrow> throw (TypeError ''getTranspiledParams'')
         | originName # _ \<Rightarrow>
             (let endingChar = (if js_test False BANG_END originName then ''!'' else []);
                  dependsOnParent = dependsOn isGen genericParentTypes genericTypes
              in bind (if isGen \<and> \<not> dependsOnParent
                       then bind (getAliasName E originName []) (\<lambda>a. ret (a @ endingChar))
                       else ret originName) (\<lambda>nm.
                 bind (rememberGeneric
                         \<lparr> r_paramName = Some paramName, r_originName = Some originName,
                           r_directive = None, r_isGen = Some isGen, r_dependsOnParent = False,
                           r_metadata = [], r_genericParentTypes = None, r_name = nm \<rparr>) (\<lambda>result.
                 ret (paramName @ '': '' @ r_name result)))))"

definition getTranspiledParams :: "env \<Rightarrow> string \<Rightarrow> string list option \<Rightarrow> string M" where
  "getTranspiledParams E params genericParentTypes =
     bind (mapM (transpileParam E (js_split '','' params) genericParentTypes) (js_split '','' params))
       (\<lambda>transpiledParams. ret (js_join '', '' transpiledParams))"

text \<open>\<open>getPropertyValue\<close>; the source never passes \<open>mapResultName\<close>.\<close>

definition getPropertyValue :: "details \<Rightarrow> string" where
  "getPropertyValue d =
     (let leftPart = d_name d @ (case d_params d of
                                  None \<Rightarrow> []
                                | Some ps \<Rightarrow> if ps \<noteq> [] then ''('' @ ps @ '')'' else [])
      in if r_name (d_result d) \<noteq> []
         then leftPart @ '': '' @ r_name (d_result d)
                @ (case r_directive (d_result d) of
                     None \<Rightarrow> []
                   | Some dv \<Rightarrow> if dv \<noteq> [] then '' '' @ dv else [])
         else leftPart)"

section \<open>Parsing the declarations\<close>

text \<open>\<open>PROPERTYPARAMSREGEX = /\((.*?)\)/\<close> and \<open>/,$/\<close>\<close>

definition PROPERTYPARAMSREGEX :: rx where
  "PROPERTYPARAMSREGEX = Seqs [Chr CHR ''('', Grp 1 (Star False Dot), Chr CHR '')'']"

definition COMMA_END :: rx where
  "COMMA_END = Seq (Chr CHR '','') Eol"

text \<open>\<open>xs[1] || ''\<close>\<close>

definition second_or_empty :: "string list \<Rightarrow> string" where
  "second_or_empty xs = (case tl xs of [] \<Rightarrow> [] | x # _ \<Rightarrow> x)"

text \<open>
  One step of the \<open>reduce\<close> of \<open>getBlockProperties\<close>; the accumulator is the pending
  comments and the properties so far.
\<close>

definition blockProperty :: "env \<Rightarrow> metadata list \<Rightarrow> metadata list \<Rightarrow> string list option
    \<Rightarrow> string list \<times> blockProp list \<Rightarrow> string \<Rightarrow> (string list \<times> blockProp list) M" where
  "blockProperty E meta md genericTypes a part =
     (let p = js_trim part;
          mData = find (\<lambda>m. md_schemaName m = p) meta
      in if js_indexOf ''#'' p = Some 0 then ret (fst a @ [p], snd a)
         else
           (let prp = js_replace False COMMA_END [] (js_replace_all False SPACES_BEFORE_SPACE [] p)
            in bind
                 (case js_match False PROPERTYPARAMSREGEX (js_replace False AT_REST [] prp) of
                    Some paramsMatch \<Rightarrow>
                      (let parts = js_split (matched paramsMatch) prp
                       in bind (getTranspiledParams E (group 1 paramsMatch) genericTypes) (\<lambda>params.
                          bind (getTypeDetails E
                                  (js_trim (js_replace_str '':'' [] (second_or_empty parts)))
                                  md genericTypes) (\<lambda>result.
                          ret \<lparr> d_name = js_trim (hd parts), d_metadata = mData,
                                d_params = Some params, d_result = result \<rparr>)))
                  | None \<Rightarrow>
                      (let parts = js_split '':'' prp
                       in bind (getTypeDetails E (js_trim (js_join '':'' (tl parts))) md genericTypes)
                            (\<lambda>result.
                          ret \<lparr> d_name = js_trim (hd parts), d_metadata = mData,
                                d_params = None, d_result = result \<rparr>)))
                 (\<lambda>propDetails.
                    ret ([], snd a @ [\<lparr> p_comments = js_join [CHR 0x0A, CHR '' '', CHR '' '', CHR '' '', CHR '' ''] (fst a),
                                        p_details = propDetails,
                                        p_value = getPropertyValue propDetails \<rparr>]))))"

definition getBlockProperties :: "env \<Rightarrow> string list \<Rightarrow> kind \<times> string \<times> string list option
    \<Rightarrow> metadata list \<Rightarrow> blockProp list M" where
  "getBlockProperties E blockParts baseObj md =
     (let meta = filter (\<lambda>m. md_schemaType m = ''PROPERTY''
                            \<and> (case md_parent m of
                                  None \<Rightarrow> False
                                | Some tn \<Rightarrow> fst tn = kind_upper (fst baseObj)
                                             \<and> snd tn = fst (snd baseObj))) md
      in bind (foldM (blockProperty E meta md (snd (snd baseObj))) ([], []) blockParts)
           (\<lambda>a. ret (snd a)))"

text \<open>
  \<open>TYPENAMEREGEX = /type\s(.*?){/\<close> and its four siblings, \<open>/(.*?){/\<close>,
  \<open>INHERITSREGEX = /inherits\s+\w+(?:\s*,\s*\w+)*/g\<close>,
  \<open>IMPLEMENTSREGEX = /implements\s(.*?)\{/mg\<close>, \<open>/@[a-zA-Z0-9_]+(.*?)$/\<close>, \<open>/{$/\<close>.
\<close>

definition nameRegEx :: "kind \<Rightarrow> rx" where
  "nameRegEx k = Seqs [Lit (kind_lower k), Sp, Grp 1 (Star False Dot), Chr CHR ''{'']"

definition TYPEDEF :: rx where
  "TYPEDEF = Seq (Grp 1 (Star False Dot)) (Chr CHR ''{'')"

definition INHERITSREGEX :: rx where
  "INHERITSREGEX = Seqs [Lit ''inherits'', Plus True Sp, Plus True (Cls True [CWord]),
     Star True (Seqs [Star True Sp, Chr CHR '','', Star True Sp, Plus True (Cls True [CWord])])]"

definition IMPLEMENTSREGEX :: rx where
  "IMPLEMENTSREGEX = Seqs [Lit ''implements'', Sp, Grp 1 (Star False Dot), Chr CHR ''{'']"

definition DIRECTIVE_TAIL :: rx where
  "DIRECTIVE_TAIL = Seqs [Chr CHR ''@'',
     Plus True (Cls True [CRange CHR ''a'' CHR ''z'', CRange CHR ''A'' CHR ''Z'',
                          CRange CHR ''0'' CHR ''9'', CChar CHR ''_'']),
     Grp 1 (Star False Dot), Eol]"

definition BRACE_END :: rx where
  "BRACE_END = Seq (Chr CHR ''{'') Eol"

text \<open>
  \<open>d.block\<close> read as lines and as a text. The fragments that reach the first reading
  come from \<open>breakdownSchemabBit\<close> and those that reach the second from the scalar and
  union breakdowns, because of the keyword their \<open>property\<close> starts with.
\<close>

fun block_lines :: "blockVal \<Rightarrow> string list" where
  "block_lines (BlockLines ls) = ls"
| "block_lines (BlockText t) = map (\<lambda>c. [c]) t"

fun block_text :: "blockVal \<Rightarrow> string" where
  "block_text (BlockText t) = t"
| "block_text (BlockLines ls) = js_join '','' ls"

text \<open>The object of one fragment in \<open>getSchemaObject\<close>.\<close>

definition schemaObjectOf :: "env \<Rightarrow> kind \<Rightarrow> metadata list \<Rightarrow> schemaBit \<Rightarrow> schemaObj M" where
  "schemaObjectOf E k md d =
     (if k = KScalar \<or> k = KUnion
      then ret \<lparr> o_type = k, o_extend = Some False, o_name = block_text (b_block d),
                 o_metadata = None, o_directive = None, o_genericType = GFalse, o_blockProps = [],
                 o_inherits = None, o_implements = None, o_originalBlockProps = None,
                 o_comments = None, o_raw = None \<rparr>
      else
        (case js_match False TYPEDEF (b_property d) of
           None \<Rightarrow> throw (SyntaxErrorIn (b_property d))
         | Some typeDefMatch \<Rightarrow>
             (if js_indexOf ''#'' (matched typeDefMatch) \<noteq> None then throw (SyntaxErrorIn (b_property d))
              else
                (let typeDef = matched typeDefMatch
                 in case js_match False (nameRegEx k) typeDef of
                      None \<Rightarrow> throw (MissingName (kind_lower k))
                    | Some nameMatch \<Rightarrow>
                        (let nm = hd (js_split '' '' (js_trim (group 1 nameMatch)));
                             isGenericType = (case js_match False GENERICTYPEREGEX nm of
                                                Some g \<Rightarrow> GStr (group 1 g)
                                              | None \<Rightarrow> GNull);
                             superClass = (case js_match_all False INHERITSREGEX typeDef of
                                             [] \<Rightarrow> None
                                           | i # _ \<Rightarrow> Some (Names (map js_trim (js_split '',''
                                                        (js_trim (js_replace_str ''inherits'' [] i))))));
                             directive = js_trim (js_replace False BRACE_END []
                                           (js_trim (case js_match False DIRECTIVE_TAIL typeDef of
                                                       None \<Rightarrow> []
                                                     | Some dm \<Rightarrow> matched dm)));
                             interface = (case js_match_all True IMPLEMENTSREGEX typeDef of
                                            [] \<Rightarrow> None
                                          | i # _ \<Rightarrow> Some (map (\<lambda>x. hd (js_split '' '' (js_trim x)))
                                                       (js_split '',''
                                                         (js_replace_str ''{'' []
                                                           (js_replace_str ''implements '' [] i)))));
                             metadat = find (\<lambda>m. md_schemaType m = kind_upper k \<and> md_schemaName m = nm) md;
                             genericTypes = (if gtype_truthy isGenericType
                                             then Some (map js_trim (js_split '','' (gtype_text isGenericType)))
                                             else None)
                         in bind (getBlockProperties E (block_lines (b_block d)) (k, nm, genericTypes) md)
                              (\<lambda>props.
                            ret \<lparr> o_type = k, o_extend = Some (b_extend d), o_name = nm,
                                  o_metadata = metadat,
                                  o_directive = (if directive = [] then None else Some directive),
                                  o_genericType = isGenericType, o_blockProps = props,
                                  o_inherits = superClass, o_implements = interface,
                                  o_originalBlockProps = None, o_comments = None, o_raw = None \<rparr>))))))"

definition getSchemaObject :: "env \<Rightarrow> schemaBit list \<Rightarrow> kind \<Rightarrow> metadata list \<Rightarrow> schemaObj list M" where
  "getSchemaObject E definitions k md =
     mapM (schemaObjectOf E k md)
       (filter (\<lambda>d. js_indexOf (kind_lower k) (b_property d) = Some 0) definitions)"

definition getInterfaces :: "env \<Rightarrow> schemaBit list \<Rightarrow> metadata list \<Rightarrow> schemaObj list M" where
  "getInterfaces E definitions md = getSchemaObject E definitions KInterface md"

definition getAbstracts :: "env \<Rightarrow> schemaBit list \<Rightarrow> metadata list \<Rightarrow> schemaObj list M" where
  "getAbstracts E definitions md = getSchemaObject E definitions KAbstract md"

definition getTypes :: "env \<Rightarrow> schemaBit list \<Rightarrow> metadata list \<Rightarrow> schemaObj list M" where
  "getTypes E definitions md = getSchemaObject E definitions KType md"

definition getInputs :: "env \<Rightarrow> schemaBit list \<Rightarrow> metadata list \<Rightarrow> schemaObj list M" where
  "getInputs E definitions md = getSchemaObject E definitions KInput md"

definition getEnums :: "env \<Rightarrow> schemaBit list \<Rightarrow> metadata list \<Rightarrow> schemaObj list M" where
  "getEnums E definitions md = getSchemaObject E definitions KEnum md"

definition getScalars :: "env \<Rightarrow> schemaBit list \<Rightarrow> metadata list \<Rightarrow> schemaObj list M" where
  "getScalars E definitions md = getSchemaObject E definitions KScalar md"

definition getUnions :: "env \<Rightarrow> schemaBit list \<Rightarrow> metadata list \<Rightarrow> schemaObj list M" where
  "getUnions E definitions md = getSchemaObject E definitions KUnion md"

section \<open>Inheritance and interfaces\<close>

text \<open>\<open>_.uniq\<close>: the first occurrence of each element stays.\<close>

fun uniq :: "'a list \<Rightarrow> 'a list" where
  "uniq [] = []"
| "uniq (x # xs) = x # uniq (filter (\<lambda>y. y \<noteq> x) xs)"

text \<open>
  \<open>getInterfaceWithAncestors\<close>. The first argument bounds the depth of the recursion:
  the source has no bound, and \<open>Diverge\<close> stands for a recursion deeper than any.
  For the name of an inherited property the source returns that property, which both
  callers flatten into their list as one element, the only use of which is to be joined
  into the rendered text: it is kept as its text, which no interface name equals
  (a name is cut at its first space).
\<close>

primrec getInterfaceWithAncestors :: "nat \<Rightarrow> string \<Rightarrow> schemaObj list \<Rightarrow> string list M" where
  "getInterfaceWithAncestors 0 interface schemaObjects = diverge"
| "getInterfaceWithAncestors (Suc n) interface schemaObjects = (\<lambda>m.
     case js_get (memoizedInterfaceWithAncestors m) interface of
       Own r \<Rightarrow> (Ok r, m)
     | Inherited \<Rightarrow> (Ok [inheritedText interface], m)
     | Absent \<Rightarrow>
         (case find (\<lambda>x. o_name x = interface) schemaObjects of
            None \<Rightarrow> (Throw (InterfaceNotDefined interface), m)
          | Some interfaceObj \<Rightarrow>
              (if o_type interfaceObj \<noteq> KInterface then (Throw (NotAnInterface interface), m)
               else
                 bind (case o_implements interfaceObj of
                         None \<Rightarrow> ret [interface]
                       | Some impl \<Rightarrow>
                           (if impl = [] then ret [interface]
                            else bind (mapM (\<lambda>i. getInterfaceWithAncestors n i schemaObjects) impl)
                                   (\<lambda>ancestors. ret (uniq ([interface] @ impl @ concat ancestors)))))
                   (\<lambda>interfaceWithAncestors m'.
                      (Ok interfaceWithAncestors,
                       m'\<lparr>memoizedInterfaceWithAncestors :=
                            al_set interface interfaceWithAncestors (memoizedInterfaceWithAncestors m')\<rparr>))
                   m)))"

text \<open>
  \<open>getObjWithInterfaces(obj, schemaObjects)\<close>. \<open>None\<close> is the call without the second
  argument, \<open>getObjWithInterfaces(obj)\<close>.
\<close>

definition getObjWithInterfaces :: "nat \<Rightarrow> schemaObj \<Rightarrow> schemaObj list option \<Rightarrow> schemaObj M" where
  "getObjWithInterfaces n obj schemaObjects =
     (case schemaObjects of
        None \<Rightarrow> ret obj
      | Some objs \<Rightarrow>
          (case o_implements obj of
             None \<Rightarrow> ret obj
           | Some impl \<Rightarrow>
               (if impl = [] then ret obj
                else bind (mapM (\<lambda>i. getInterfaceWithAncestors n i objs) impl) (\<lambda>ancestors.
                     ret \<lparr> o_type = o_type obj, o_extend = None, o_name = o_name obj,
                           o_metadata = o_metadata obj, o_directive = None,
                           o_genericType = o_genericType obj, o_blockProps = o_blockProps obj,
                           o_inherits = o_inherits obj, o_implements = Some (uniq (concat ancestors)),
                           o_originalBlockProps = Some (o_blockProps obj),
                           o_comments = None, o_raw = None \<rparr>))))"

definition inheritingIsAllowed :: "schemaObj \<Rightarrow> schemaObj \<Rightarrow> bool" where
  "inheritingIsAllowed obj subClass =
     (if o_type obj = KType then o_type subClass = KType \<or> o_type subClass = KInterface
      else o_type obj = o_type subClass)"

text \<open>
  \<open>`${obj.type}_${obj.name}_${obj.genericType}`\<close>. The key begins with the kind in capital
  letters, so it is never the name of an inherited property, and \<open>memoizedExtendedObject\<close>
  is never enumerated.
\<close>

definition extKey :: "schemaObj \<Rightarrow> string" where
  "extKey obj = kind_upper (o_type obj) @ ''_'' @ o_name obj @ ''_'' @ gtype_text (o_genericType obj)"

text \<open>
  \<open>obj.inherits.indexOf(x.name) > -1\<close> and \<open>_.difference(obj.inherits, superClassNames)\<close>.
  The parent objects of an already merged declaration are never equal to a name.
\<close>

fun inheritsName :: "inh \<Rightarrow> string \<Rightarrow> bool" where
  "inheritsName (Names ns) x = (x \<in> set ns)"
| "inheritsName (Parents ps) x = False"

fun missingOf :: "inh \<Rightarrow> string list \<Rightarrow> string list" where
  "missingOf (Names ns) superClassNames = filter (\<lambda>c. c \<notin> set superClassNames) ns"
| "missingOf (Parents ps) superClassNames = map (\<lambda>c. ''[object Object]'') ps"

text \<open>\<open>getObjWithExtensions\<close>, with the depth of its recursion bounded like above.\<close>

primrec getObjWithExtensions :: "nat \<Rightarrow> schemaObj \<Rightarrow> schemaObj list \<Rightarrow> schemaObj M" where
  "getObjWithExtensions 0 obj schemaObjects = diverge"
| "getObjWithExtensions (Suc n) obj schemaObjects =
     (case o_inherits obj of
        None \<Rightarrow> getObjWithInterfaces n obj None
      | Some inherits \<Rightarrow> (\<lambda>m.
          case map_of (memoizedExtendedObject m) (extKey obj) of
            Some r \<Rightarrow> (Ok r, m)
          | None \<Rightarrow>
              (let superClass = filter (\<lambda>x. inheritsName inherits (o_name x)) schemaObjects;
                   superClassNames = map o_name schemaObjects
               in case missingOf inherits superClassNames of
                    c # _ \<Rightarrow> (Throw (CannotFindInherited (o_type obj) (o_name obj) c), m)
                  | [] \<Rightarrow>
                      bind (mapM (\<lambda>subClass.
                                    if \<not> inheritingIsAllowed obj subClass
                                    then throw (CannotInherit (o_type obj) (o_name obj)
                                                  (o_type subClass) (o_name subClass))
                                    else getObjWithExtensions n subClass schemaObjects) superClass)
                        (\<lambda>superClassesWithInheritance.
                      bind (case o_metadata obj of
                              Some md \<Rightarrow> ret (Some md)
                            | None \<Rightarrow>
                                (if superClassesWithInheritance = []
                                 then throw (TypeError ''getObjWithExtensions'')
                                 else ret (o_metadata (last superClassesWithInheritance))))
                        (\<lambda>metadat m'.
                           (let objWithInheritance =
                                  \<lparr> o_type = o_type obj, o_extend = None, o_name = o_name obj,
                                    o_metadata = metadat, o_directive = o_directive obj,
                                    o_genericType = o_genericType obj,
                                    o_blockProps = concat (map o_blockProps superClassesWithInheritance)
                                                     @ o_blockProps obj,
                                    o_inherits = Some (Parents (map o_name superClassesWithInheritance)),
                                    o_implements = Some (uniq (filter (\<lambda>x. x \<noteq> [])
                                                     (case o_implements obj of None \<Rightarrow> [] | Some i \<Rightarrow> i))),
                                    o_originalBlockProps = Some (o_blockProps obj),
                                    o_comments = None, o_raw = None \<rparr>
                            in getObjWithInterfaces n objWithInheritance (Some schemaObjects)
                                 (m'\<lparr>memoizedExtendedObject :=
                                       al_set (extKey obj) objWithInheritance (memoizedExtendedObject m')\<rparr>))))
                        m)))"

section \<open>Comments\<close>

text \<open>
  \<open>getSchemaEntity\<close>: the kind and the name a header line declares. Its regular
  expressions are \<open>/type\s+(.*?)\s+.*/\<close> and the like; where one does not match, reading
  \<open>[1]\<close> of \<open>null\<close> is a \<open>TypeError\<close>.
\<close>

definition entityRegEx :: "string \<Rightarrow> rx" where
  "entityRegEx word = Seqs [Lit word, Plus True Sp, Grp 1 (Star False Dot), Plus True Sp, Star True Dot]"

definition entityNamed :: "kind \<Rightarrow> string \<Rightarrow> string \<Rightarrow> error + kind option \<times> string option" where
  "entityNamed k word firstLine =
     (case js_match False (entityRegEx word) firstLine of
        None \<Rightarrow> Inl (TypeError ''getSchemaEntity'')
      | Some m \<Rightarrow> Inr (Some k, Some (js_trim (group 1 m))))"

definition getSchemaEntity :: "string \<Rightarrow> error + kind option \<times> string option" where
  "getSchemaEntity firstLine =
     (if js_indexOf ''type'' firstLine = Some 0 then entityNamed KType ''type'' firstLine
      else if js_indexOf ''enum'' firstLine = Some 0 then entityNamed KEnum ''enum'' firstLine
      else if js_indexOf ''input'' firstLine = Some 0 then entityNamed KInput ''input'' firstLine
      else if js_indexOf ''interface'' firstLine = Some 0 then entityNamed KInterface ''interface'' firstLine
      else if js_indexOf ''union'' firstLine = Some 0 then entityNamed KUnion ''union'' firstLine
      else if js_indexOf ''scalar'' firstLine = Some 0 then entityNamed KScalar ''scalar'' firstLine
      else Inr (None, None))"

record commentEntry =
  c_text :: string
  c_property :: "kind option \<times> string option"

text \<open>\<open>/#(.*?)\<marker>([^#]*?)({|:)/g\<close>\<close>

definition COMMENT_HEADER :: rx where
  "COMMENT_HEADER = Seqs [Chr CHR ''#'', Grp 1 (Star False Dot), Lit carrReturnEsc,
     Grp 2 (Star False (Cls False [CChar CHR ''#''])), Grp 3 (Alt (Chr CHR ''{'') (Chr CHR '':''))]"

text \<open>One match of \<open>getCommentsBits\<close>: its entry, and whether all lines above the header are comments.\<close>

definition commentBit :: "string \<Rightarrow> error + commentEntry \<times> bool" where
  "commentBit c =
     (let parts = filter (\<lambda>x. x \<noteq> [])
            (map (\<lambda>l. js_trim (js_replace_all False (Lit tabEsc) ''    '' l)) (js_split carrReturnEsc c));
          hashCount = length (filter (\<lambda>b. js_indexOf ''#'' b = Some 0) parts)
      in if parts = [] then Inl (TypeError ''getCommentsBits'')
         else (case getSchemaEntity (last parts) of
                 Inl e \<Rightarrow> Inl e
               | Inr pr \<Rightarrow> Inr (\<lparr> c_text = js_join [CHR 0x0A] (butlast parts), c_property = pr \<rparr>,
                              Suc hashCount = length parts)))"

fun commentBits :: "string list \<Rightarrow> error + (commentEntry \<times> bool) list" where
  "commentBits [] = Inr []"
| "commentBits (c # cs) =
     (case commentBit c of
        Inl e \<Rightarrow> Inl e
      | Inr b \<Rightarrow> (case commentBits cs of Inl e \<Rightarrow> Inl e | Inr bs \<Rightarrow> Inr (b # bs)))"

definition getCommentsBits :: "env \<Rightarrow> string \<Rightarrow> commentEntry list M" where
  "getCommentsBits E sch = (\<lambda>m.
     let r = escapeGraphQlSchemaPlus E sch m
     in case fst r of
          None \<Rightarrow> (Throw (TypeError ''getCommentsBits''), snd r)
        | Some escaped \<Rightarrow>
            (case commentBits (filter (js_test False BRACE_END)
                                (js_match_all False COMMENT_HEADER escaped)) of
               Inl e \<Rightarrow> (Throw e, snd r)
             | Inr bs \<Rightarrow> (Ok (map fst (filter snd bs)), snd r)))"

definition addComments :: "schemaObj \<Rightarrow> commentEntry list \<Rightarrow> schemaObj" where
  "addComments obj comments =
     obj\<lparr>o_comments :=
           map_option c_text
             (find (\<lambda>c. fst (c_property c) = Some (o_type obj)
                        \<and> snd (c_property c) = Some (o_name obj)) comments)\<rparr>"

section \<open>Rendering\<close>

definition propLine :: "blockProp \<Rightarrow> string" where
  "propLine prp =
     ''    '' @ (if p_comments prp \<noteq> [] then p_comments prp @ [CHR 0x0A] @ ''    '' else [])
       @ p_value prp"

definition parseSchemaObjToString :: "string option \<Rightarrow> kind \<Rightarrow> string \<Rightarrow> string list option
    \<Rightarrow> blockProp list \<Rightarrow> bool \<Rightarrow> string option \<Rightarrow> string" where
  "parseSchemaObjToString comments type nm implements blockProps ext directive =
     js_join [CHR 0x0A] (filter (\<lambda>x. x \<noteq> [])
       [ (case comments of
            None \<Rightarrow> []
          | Some c \<Rightarrow> if c \<noteq> [] then [CHR 0x0A] @ c else []),
         (if ext then ''extend '' else []) @ kind_lower type @ '' '' @ js_replace_str ''!'' [] nm
           @ (case implements of
                None \<Rightarrow> []
              | Some i \<Rightarrow> if i \<noteq> [] then '' implements '' @ js_join '', '' i else [])
           @ '' ''
           @ (if blockProps \<noteq> []
              then (case directive of
                      None \<Rightarrow> []
                    | Some d \<Rightarrow> if d \<noteq> [] then '' '' @ d @ '' '' else []) @ ''{''
              else [])
           @ '' '',
         js_join [CHR 0x0A] (map propLine blockProps),
         (if blockProps \<noteq> [] then ''}'' else []) ])"

section \<open>Instantiating generic declarations\<close>

text \<open>\<open>/\s/g\<close>, \<open>/\[(.*?)\]/\<close>, \<open>/<$/\<close>, \<open>/^\[.*\]$/\<close>, \<open>/^\[|\]$/g\<close>\<close>

definition strip_spaces :: "string \<Rightarrow> string" where
  "strip_spaces x = js_replace_all False Sp [] x"

definition IN_BRACKETS :: rx where
  "IN_BRACKETS = Seqs [Chr CHR ''['', Grp 1 (Star False Dot), Chr CHR '']'']"

definition LT_END :: rx where
  "LT_END = Seq (Chr CHR ''<'') Eol"

definition WHOLE_ARRAY :: rx where
  "WHOLE_ARRAY = Seqs [Bol, Chr CHR ''['', Star True Dot, Chr CHR '']'', Eol]"

definition OUTER_BRACKETS :: rx where
  "OUTER_BRACKETS = Alt (Seq Bol (Chr CHR ''['')) (Seq (Chr CHR '']'') Eol)"

text \<open>The loop over \<open>gLetters\<close> that returns the concrete type at the index of \<open>t\<close>.\<close>

fun matchLetters :: "string \<Rightarrow> string \<Rightarrow> (string \<times> string) list \<Rightarrow> string list
    \<Rightarrow> error + string list" where
  "matchLetters genericType letters table [] = Inr []"
| "matchLetters genericType letters table (t # ts) =
     (case map_of table t of
        None \<Rightarrow> Inl (MismatchTypes genericType letters)
      | Some c \<Rightarrow>
          (case matchLetters genericType letters table ts of
             Inl e \<Rightarrow> Inl e
           | Inr cs \<Rightarrow> Inr (c # cs)))"

fun matchRequiredLetters :: "string \<Rightarrow> string \<Rightarrow> (string \<times> string) list \<Rightarrow> string list
    \<Rightarrow> error + string list" where
  "matchRequiredLetters genericType letters table [] = Inr []"
| "matchRequiredLetters genericType letters table (t # ts) =
     (let isRequired = js_test False BANG_END t;
          t' = js_trim (if isRequired then js_replace False BANG_END [] t else t)
      in case map_of table t' of
           None \<Rightarrow> Inl (MismatchTypes genericType letters)
         | Some c \<Rightarrow>
             (case matchRequiredLetters genericType letters table ts of
                Inl e \<Rightarrow> Inl e
              | Inr cs \<Rightarrow> Inr ((c @ (if isRequired then ''!'' else [])) # cs)))"

definition replaceGenericWithType :: "string \<Rightarrow> string list \<Rightarrow> string \<Rightarrow> error + string" where
  "replaceGenericWithType genericType genericLetters concreteType =
     (let gType = strip_spaces genericType;
          gLetters = map strip_spaces genericLetters;
          cTypes = map strip_spaces (js_split '','' concreteType);
          genericTypeIsArray = (js_indexOf ''['' gType = Some 0 \<and> index_pos (js_indexOf '']'' gType));
          endingChar = (if js_test False BANG_END gType then ''!'' else []);
          letters = js_join '','' genericLetters;
          table = take (length cTypes) (zip gLetters cTypes)
      in if length gLetters \<noteq> length cTypes then Inl (MismatchLettersConcrete letters concreteType)
         else if length gLetters = 1 \<and> js_replace False BANG_END [] gType = hd gLetters
         then Inr (hd cTypes @ endingChar)
         else
           (case (if genericTypeIsArray then map_option (group 1) (js_match False IN_BRACKETS gType)
                  else Some gType) of
              None \<Rightarrow> Inl (TypeError ''replaceGenericWithType'')
            | Some type \<Rightarrow>
                (if index_pos (js_indexOf ''<'' gType) \<and> index_pos (js_indexOf ''>'' gType)
                 then
                   (case js_match False UP_TO_LT type of
                      None \<Rightarrow> Inl (TypeError ''replaceGenericWithType'')
                    | Some tn \<Rightarrow>
                        (case js_match False GENERICTYPEREGEX type of
                           None \<Rightarrow> Inl (TypeError ''replaceGenericWithType'')
                         | Some tm \<Rightarrow>
                             (let typeName = js_trim (js_replace False LT_END [] (matched tn));
                                  types = map js_trim (js_split '','' (group 1 tm))
                              in if length types \<noteq> length gLetters
                                 then Inl (MismatchLettersGeneric letters genericType)
                                 else
                                   (case matchLetters genericType letters table types of
                                      Inl e \<Rightarrow> Inl e
                                    | Inr matchingConcreteTypes \<Rightarrow>
                                        (let result = typeName @ ''<''
                                               @ js_join '','' matchingConcreteTypes @ ''>''
                                         in Inr (if genericTypeIsArray
                                                 then ''['' @ result @ '']'' @ endingChar
                                                 else result @ endingChar))))))
                 else
                   (case matchRequiredLetters genericType letters table (js_split '','' type) of
                      Inl e \<Rightarrow> Inl e
                    | Inr matchingConcreteTypes \<Rightarrow>
                        (let result = js_join '','' matchingConcreteTypes
                         in Inr (if genericTypeIsArray
                                 then ''['' @ result @ '']'' @ endingChar
                                 else result @ endingChar))))))"

text \<open>
  The result of \<open>createNewSchemaObjectFromGeneric\<close>, \<open>{ obj, stringObj }\<close>, and the
  dictionary \<open>memoizedNewSchemaObjectFromGeneric\<close> that its callers create and pass on.
\<close>

record genResult =
  g_obj :: "schemaObj option"
  g_stringObj :: "string option"

type_synonym genMemo = "(string \<times> genResult) list"

text \<open>
  The body of \<open>baseGenObj.blockProps.map\<close> for one property; \<open>create\<close> is the recursive
  call of \<open>createNewSchemaObjectFromGeneric\<close>.
\<close>

definition instantiateProp :: "(typeRef \<Rightarrow> genMemo \<Rightarrow> (genResult \<times> genMemo) M) \<Rightarrow> env \<Rightarrow> string
    \<Rightarrow> string \<Rightarrow> blockProp \<Rightarrow> genMemo \<Rightarrow> (blockProp \<times> genMemo) M" where
  "instantiateProp create E genericType concreteType prp memo =
     (let res = d_result (p_details prp)
      in if isTypeGeneric (JStr (r_name res)) (JStr genericType)
         then
           (case replaceGenericWithType (r_name res) (js_split '','' genericType) concreteType of
              Inl e \<Rightarrow> throw e
            | Inr nm \<Rightarrow>
                bind
                  (if r_dependsOnParent res
                   then
                     (let propTypeIsRequired = js_test False BANG_END (r_name res);
                          propTypeName = (if propTypeIsRequired
                                          then js_replace False BANG_END [] (r_name res)
                                          else r_name res);
                          propTypeIsArray = js_test False WHOLE_ARRAY propTypeName
                      in case r_genericParentTypes res of
                           None \<Rightarrow> throw (TypeError ''replaceGenericWithType'')
                         | Some parentTypes \<Rightarrow>
                             (case replaceGenericWithType propTypeName parentTypes concreteType of
                                Inl e \<Rightarrow> throw e
                              | Inr originalConcretePropType \<Rightarrow>
                                  (let concretePropType =
                                         (if propTypeIsArray
                                          then js_replace_all False OUTER_BRACKETS [] originalConcretePropType
                                          else originalConcretePropType)
                                   in bind (getTypeDetails E concretePropType (r_metadata res) None)
                                        (\<lambda>concreteGenProp.
                                      bind (create concreteGenProp memo) (\<lambda>r.
                                        case g_obj (fst r) of
                                          None \<Rightarrow> throw (TypeError ''createNewSchemaObjectFromGeneric'')
                                        | Some ob \<Rightarrow>
                                            (let concreteGenPropName = o_name ob;
                                                 n1 = (if propTypeIsArray
                                                       then ''['' @ concreteGenPropName @ '']''
                                                       else concreteGenPropName);
                                                 n2 = n1 @ (if propTypeIsRequired then ''!'' else []);
                                                 dv = (case r_directive res of
                                                         None \<Rightarrow> []
                                                       | Some d \<Rightarrow> if d \<noteq> [] then '' '' @ d else [])
                                             in ret (\<lparr> r_paramName = None,
                                                       r_originName = Some (r_name res @ dv),
                                                       r_directive = None, r_isGen = Some True,
                                                       r_dependsOnParent = False, r_metadata = [],
                                                       r_genericParentTypes = None,
                                                       r_name = n2 @ dv \<rparr>, snd r)))))))
                   else ret (\<lparr> r_paramName = None, r_originName = None, r_directive = None,
                               r_isGen = None, r_dependsOnParent = False, r_metadata = [],
                               r_genericParentTypes = None, r_name = nm \<rparr>, memo))
                  (\<lambda>rm.
                     (let dets = \<lparr> d_name = d_name (p_details prp), d_metadata = None,
                                   d_params = None, d_result = fst rm \<rparr>
                      in ret (\<lparr> p_comments = p_comments prp, p_details = dets,
                                 p_value = getPropertyValue dets \<rparr>, snd rm))))
         else ret (prp, memo))"

text \<open>The \<open>result\<close> of \<open>createNewSchemaObjectFromGeneric\<close> for the new properties.\<close>

definition synthesized :: "schemaObj \<Rightarrow> string \<Rightarrow> blockProp list \<Rightarrow> genResult" where
  "synthesized baseGenObj name blockProps =
     \<lparr> g_obj = Some
         \<lparr> o_type = o_type baseGenObj, o_extend = None,
           o_name = name, o_metadata = None,
           o_directive = None, o_genericType = GNull,
           o_blockProps = blockProps, o_inherits = None,
           o_implements = o_implements baseGenObj,
           o_originalBlockProps = None,
           o_comments = o_comments baseGenObj, o_raw = None \<rparr>,
       g_stringObj = Some
         (parseSchemaObjToString (o_comments baseGenObj)
            (o_type baseGenObj) name
            (o_implements baseGenObj) blockProps False None) \<rparr>"

text \<open>
  \<open>createNewSchemaObjectFromGeneric\<close>, the depth of its recursion bounded by the first
  argument. The dictionary is always passed by the callers, so the check for its
  absence is left out. For a name that is the name of an inherited property the source
  returns that property; it has neither \<open>obj\<close> nor \<open>stringObj\<close>, which is all the callers
  read of it.
\<close>

primrec createNewSchemaObjectFromGeneric :: "nat \<Rightarrow> env \<Rightarrow> typeRef \<Rightarrow> schemaObj list \<Rightarrow> genMemo
    \<Rightarrow> (genResult \<times> genMemo) M" where
  "createNewSchemaObjectFromGeneric 0 E ref schemaBreakDown memo = diverge"
| "createNewSchemaObjectFromGeneric (Suc n) E ref schemaBreakDown memo =
     (if r_isGen ref = Some True
      then
        (case js_get memo (r_name ref) of
           Own r \<Rightarrow> ret (r, memo)
         | Inherited \<Rightarrow> ret (\<lparr> g_obj = None, g_stringObj = None \<rparr>, memo)
         | Absent \<Rightarrow>
             (case r_originName ref of
                None \<Rightarrow> throw (TypeError ''createNewSchemaObjectFromGeneric'')
              | Some originName \<Rightarrow>
                  (let genObjName = hd (js_split ''<'' originName) @ ''<'';
                       concreteType = (case js_match False GENERICTYPEREGEX originName of
                                         None \<Rightarrow> []
                                       | Some m \<Rightarrow> group 1 m)
                   in if concreteType = [] then throw (CannotFindGenericType originName)
                      else
                        (case find (\<lambda>x. js_indexOf genObjName (o_name x) = Some 0) schemaBreakDown of
                           None \<Rightarrow> throw (NoDefinitionForGeneric genObjName)
                         | Some baseGenObj \<Rightarrow>
                             (if \<not> gtype_truthy (o_genericType baseGenObj)
                              then throw (NotGeneric (o_name baseGenObj))
                              else
                                bind (foldM (\<lambda>acc prp.
                                        bind (instantiateProp
                                                (\<lambda>r mm. createNewSchemaObjectFromGeneric n E r schemaBreakDown mm)
                                                E (gtype_text (o_genericType baseGenObj)) concreteType
                                                prp (snd acc))
                                          (\<lambda>pm. ret (fst acc @ [fst pm], snd pm)))
                                        ([], memo) (o_blockProps baseGenObj))
                                  (\<lambda>acc.
                                     (let result = synthesized baseGenObj (r_name ref) (fst acc)
                                      in ret (result, al_set (r_name ref) result (snd acc)))))))))
      else ret (\<lparr> g_obj = None, g_stringObj = None \<rparr>, memo))"

text \<open>
  The loop of both callers: every remembered generic use that does not depend on its
  parent is instantiated, in the order in which the object enumerates the uses.
\<close>

definition resolveGenericTypes :: "nat \<Rightarrow> env \<Rightarrow> schemaObj list \<Rightarrow> genMemo M" where
  "resolveGenericTypes fuel E schemaObjs = (\<lambda>m.
     foldM (\<lambda>memo v. bind (createNewSchemaObjectFromGeneric fuel E v schemaObjs memo)
                        (\<lambda>r. ret (snd r)))
           []
           (filter (\<lambda>x. \<not> r_dependsOnParent x) (map snd (js_entries (memoizedGenericSchemaObjects m))))
           m)"

section \<open>The two operations\<close>

definition opt_text :: "string option \<Rightarrow> string" where
  "opt_text x = (case x of None \<Rightarrow> [] | Some t \<Rightarrow> t)"

definition buildSchemaString :: "nat \<Rightarrow> env \<Rightarrow> schemaObj list \<Rightarrow> string M" where
  "buildSchemaString fuel E schemaObjs =
     (let part_01 = js_join [CHR 0x0A]
            (map (\<lambda>obj. parseSchemaObjToString (o_comments obj) (o_type obj) (o_name obj)
                          (o_implements obj) (o_blockProps obj) (o_extend obj = Some True)
                          (o_directive obj))
               (filter (\<lambda>x. \<not> gtype_truthy (o_genericType x) \<and> o_type x \<noteq> KAbstract
                             \<and> o_type x \<noteq> KDirective) schemaObjs))
      in bind (resolveGenericTypes fuel E schemaObjs) (\<lambda>resolvedGenericTypes.
           (let part_02 = js_join [CHR 0x0A] (map (\<lambda>x. opt_text (g_stringObj (snd x)))
                                              (js_entries resolvedGenericTypes));
                directives = concat (map (\<lambda>x. opt_text (o_raw x))
                               (filter (\<lambda>x. o_type x = KDirective \<and> opt_text (o_raw x) \<noteq> []) schemaObjs))
            in ret (directives @ [CHR 0x0A] @ part_01 @ part_02))))"

definition directiveObj :: "metadata \<Rightarrow> schemaObj" where
  "directiveObj d =
     \<lparr> o_type = KDirective, o_extend = Some False, o_name = md_name d, o_metadata = None,
       o_directive = None, o_genericType = GNull, o_blockProps = [], o_inherits = None,
       o_implements = None, o_originalBlockProps = None, o_comments = None,
       o_raw = Some (js_replace_all False (Lit carrReturnEsc) [CHR 0x0A] (md_body d)) \<rparr>"

text \<open>
  The first two steps of \<open>getSchemaParts\<close>: the fragments, and from them the declarations
  of each kind, interfaces first. The source calls the result \<open>firstSchemaBreakDown\<close>.
\<close>

definition firstSchemaBreakDown :: "env \<Rightarrow> string \<Rightarrow> metadata list \<Rightarrow> schemaObj list M" where
  "firstSchemaBreakDown E graphQlSchema md =
     bind (getSchemaBits E graphQlSchema) (\<lambda>schemaBits.
       foldM (\<lambda>objects getObjects. bind (getObjects E schemaBits md) (\<lambda>os. ret (objects @ os)))
         [] [getInterfaces, getAbstracts, getTypes, getInputs, getEnums, getScalars, getUnions])"

text \<open>
  \<open>getSchemaParts\<close>. The two \<open>map\<close>s over the declarations run one after the other
  (the library does not fuse a chain that only maps).
\<close>

definition getSchemaParts :: "nat \<Rightarrow> env \<Rightarrow> string \<Rightarrow> metadata list \<Rightarrow> bool \<Rightarrow> schemaObj list M" where
  "getSchemaParts fuel E graphQlSchema md includeNewGenTypes =
     bind (firstSchemaBreakDown E graphQlSchema md) (\<lambda>firstSchemaBreakDown.
     bind (mapM (\<lambda>obj. getObjWithExtensions fuel obj firstSchemaBreakDown) firstSchemaBreakDown)
       (\<lambda>extended.
     bind (mapM (\<lambda>obj. bind (getCommentsBits E graphQlSchema) (\<lambda>cs. ret (addComments obj cs))) extended)
       (\<lambda>v.
     bind (if includeNewGenTypes
           then bind (resolveGenericTypes fuel E v) (\<lambda>resolvedGenericTypes.
                  ret (v @ concat (map (\<lambda>x. case g_obj (snd x) of None \<Rightarrow> [] | Some ob \<Rightarrow> [ob])
                                     (js_entries resolvedGenericTypes))))
           else ret v)
       (\<lambda>v'.
     ret (if filter md_directive md \<noteq> [] then v' @ map directiveObj (filter md_directive md) else v')))))"

definition resetMemory :: "nat M" where
  "resetMemory = (\<lambda>m. (Ok 1, emptyMemory))"

definition getSchemaAST :: "nat \<Rightarrow> env \<Rightarrow> string \<Rightarrow> schemaObj list M" where
  "getSchemaAST fuel E graphQlSchema =
     bind resetMemory (\<lambda>_.
     bind (ret (removeGraphMetadata E graphQlSchema)) (\<lambda>data.
     bind (getSchemaParts fuel E (fst data) (snd data) True) (\<lambda>v.
     bind resetMemory (\<lambda>_. ret v))))"

definition transpileSchema :: "nat \<Rightarrow> env \<Rightarrow> string \<Rightarrow> string M" where
  "transpileSchema fuel E graphQlSchema =
     bind resetMemory (\<lambda>_.
     bind (ret (removeGraphMetadata E graphQlSchema)) (\<lambda>data.
     bind (bind (getSchemaParts fuel E (fst data) (snd data) False) (buildSchemaString fuel E)) (\<lambda>v.
     bind resetMemory (\<lambda>_. ret v))))"

text \<open>
  Modelled from the spec: the escaper of \<open>./utilities\<close>, which is not among the sources.
  The spec gives it a line-break marker and a tab marker; here every line break of the
  text becomes the first and every tab the second, and nothing else changes.
\<close>

fun escapeModel :: "string \<Rightarrow> string \<Rightarrow> string \<Rightarrow> string" where
  "escapeModel [] cr t = []"
| "escapeModel (c # cs) cr t =
     (if c = CHR 0x0A then cr @ escapeModel cs cr t
      else if c = CHR 0x09 then t @ escapeModel cs cr t
      else c # escapeModel cs cr t)"

text \<open>
  Modelled from the spec: the metadata extractor of \<open>./graphmetadata\<close>, which is not among
  the sources, on a text without annotations: the text itself and no metadata.
\<close>

definition removeNoMetadata :: "string \<Rightarrow> string \<times> metadata list" where
  "removeNoMetadata sch = (sch, [])"

definition plainEnv :: env where
  "plainEnv = \<lparr> escapeGraphQlSchema = escapeModel, newShortId = (\<lambda>i. ''c'' @ replicate i CHR ''x''),
                 removeGraphMetadata = removeNoMetadata, evalJs = (\<lambda>s. Inl (EvalError s)) \<rparr>"

section \<open>The merge of the spec, and example schemas\<close>

text \<open>
  The merged properties as the spec words them, to compare with \<open>getObjWithExtensions\<close>:
  a declaration without \<open>inherits\<close> has its own properties; otherwise the merged
  properties of its ancestors, one after the other, are followed by its own, and nothing
  is removed. The ancestors are the declarations whose name is in the \<open>inherits\<close> list, in
  the order of the list of declarations. \<open>None\<close> is an inheritance deeper than the first
  argument.
\<close>

primrec mergedProperties :: "nat \<Rightarrow> schemaObj list \<Rightarrow> schemaObj \<Rightarrow> blockProp list option" where
  "mergedProperties 0 objs obj = None"
| "mergedProperties (Suc n) objs obj =
     (case o_inherits obj of
        None \<Rightarrow> Some (o_blockProps obj)
      | Some inherits \<Rightarrow>
          (case those (map (mergedProperties n objs)
                        (filter (\<lambda>x. inheritsName inherits (o_name x)) objs)) of
             None \<Rightarrow> None
           | Some pss \<Rightarrow> Some (concat pss @ o_blockProps obj)))"

text \<open>
  No two inheriting declarations of the list have the same key \<open>type_name_genericType\<close>,
  the key under which \<open>getObjWithExtensions\<close> memoizes.
\<close>

definition uniqueKeys :: "schemaObj list \<Rightarrow> bool" where
  "uniqueKeys objs =
     (\<forall>x \<in> set objs. \<forall>y \<in> set objs.
        o_inherits x \<noteq> None \<and> o_inherits y \<noteq> None \<and> extKey x = extKey y \<longrightarrow> x = y)"

text \<open>
  The memoized merges agree with the merge of the spec: the invariant of
  \<open>memoizedExtendedObject\<close> during one call of \<open>getSchemaParts\<close>.
\<close>

definition memoAgrees :: "schemaObj list \<Rightarrow> memory \<Rightarrow> bool" where
  "memoAgrees objs m =
     (\<forall>x \<in> set objs. \<forall>r. o_inherits x \<noteq> None
        \<and> map_of (memoizedExtendedObject m) (extKey x) = Some r
        \<longrightarrow> (\<exists>k. mergedProperties k objs x = Some (o_blockProps r)))"

text \<open>
  Where the spec promises a result of the resolution. The interface \<open>i\<close> can be closed
  within the depth \<open>k\<close>: it is declared, as an interface, and so is every interface that it
  implements, to the end (the source also answers for the name of an inherited property,
  without looking for a declaration).
\<close>

primrec interfaceResolves :: "nat \<Rightarrow> schemaObj list \<Rightarrow> string \<Rightarrow> bool" where
  "interfaceResolves 0 objs i = False"
| "interfaceResolves (Suc k) objs i =
     (if i \<in> set objectPrototypeKeys then True
      else (case find (\<lambda>x. o_name x = i) objs of
              None \<Rightarrow> False
            | Some interfaceObj \<Rightarrow>
                o_type interfaceObj = KInterface
                \<and> list_all (interfaceResolves k objs)
                     (case o_implements interfaceObj of None \<Rightarrow> [] | Some impl \<Rightarrow> impl)))"

text \<open>
  The declaration can be resolved within the depth \<open>k\<close>: every name it inherits is
  declared, it has a parent, it may inherit from each parent, each parent can be
  resolved in turn, and its interfaces can be closed. A cycle of \<open>inherits\<close> has no depth.
\<close>

primrec resolvable :: "nat \<Rightarrow> schemaObj list \<Rightarrow> schemaObj \<Rightarrow> bool" where
  "resolvable 0 objs obj = False"
| "resolvable (Suc k) objs obj =
     (case o_inherits obj of
        None \<Rightarrow> True
      | Some inherits \<Rightarrow>
          missingOf inherits (map o_name objs) = []
          \<and> filter (\<lambda>x. inheritsName inherits (o_name x)) objs \<noteq> []
          \<and> list_all (\<lambda>p. inheritingIsAllowed obj p \<and> resolvable k objs p)
               (filter (\<lambda>x. inheritsName inherits (o_name x)) objs)
          \<and> list_all (interfaceResolves k objs)
               (uniq (filter (\<lambda>x. x \<noteq> [])
                  (case o_implements obj of None \<Rightarrow> [] | Some i \<Rightarrow> i))))"


text \<open>A text from its lines.\<close>

definition text_of_lines :: "string list \<Rightarrow> string" where
  "text_of_lines ls = js_join [CHR 0x0A] ls"

text \<open>
  What the parser gives for a property line \<open>n: t\<close> without generic argument, directive
  or comment, inside a declaration with the generic letters \<open>gp\<close>, and for a declaration
  without directive and metadata.
\<close>

definition propOf :: "string list option \<Rightarrow> string \<Rightarrow> string \<Rightarrow> blockProp" where
  "propOf gp n t =
     \<lparr> p_comments = [],
       p_details = \<lparr> d_name = n, d_metadata = None, d_params = None,
                     d_result = \<lparr> r_paramName = None, r_originName = Some t, r_directive = None,
                                  r_isGen = Some False, r_dependsOnParent = False, r_metadata = [],
                                  r_genericParentTypes = gp, r_name = t \<rparr> \<rparr>,
       p_value = n @ '': '' @ t \<rparr>"

definition declOf :: "kind \<Rightarrow> string \<Rightarrow> gtype \<Rightarrow> blockProp list \<Rightarrow> inh option \<Rightarrow> string list option
    \<Rightarrow> schemaObj" where
  "declOf k n g ps i impl =
     \<lparr> o_type = k, o_extend = Some False, o_name = n, o_metadata = None, o_directive = None,
       o_genericType = g, o_blockProps = ps, o_inherits = i, o_implements = impl,
       o_originalBlockProps = None, o_comments = None, o_raw = None \<rparr>"

text \<open>The end-to-end example of the spec, as the spec writes it and with its blocks on lines of their own.\<close>

definition endToEndOneLine :: string where
  "endToEndOneLine = text_of_lines
     [''type Paged<T> { items: [T] }'',
      ''type Product { id: ID }'',
      ''type Query { products: Paged<Product> }'']"

definition endToEndLines :: string where
  "endToEndLines = text_of_lines
     [''type Paged<T> {'', '' items: [T]'', ''}'',
      ''type Product {'', '' id: ID'', ''}'',
      ''type Query {'', '' products: Paged<Product>'', ''}'']"

definition endToEndOutput :: string where
  "endToEndOutput = text_of_lines
     [[],
      ''type Product { '', ''    id: ID'', ''}'',
      ''type Query { '', ''    products: PagedProduct'', ''}type PagedProduct { '',
      ''    items: [Product]'', ''}'']"








definition arityUsed :: string where
  "arityUsed = text_of_lines
     [''type P<T,U> {'', '' i: T'', ''}'', ''type Q {'', '' p: P<A>'', ''}'']"




text \<open>Three declarations, the last inheriting the two others in the order B, A.\<close>

definition inheritsTwo :: string where
  "inheritsTwo = text_of_lines
     [''type A {'', '' a: X'', ''}'', ''type B {'', '' b: X'', ''}'',
      ''type C inherits B, A {'', '' c: X'', ''}'']"

definition declA :: schemaObj where
  "declA = declOf KType ''A'' GNull [propOf None ''a'' ''X''] None None"

definition declB :: schemaObj where
  "declB = declOf KType ''B'' GNull [propOf None ''b'' ''X''] None None"

definition declC :: schemaObj where
  "declC = declOf KType ''C'' GNull [propOf None ''c'' ''X''] (Some (Names [''B'', ''A''])) None"

text \<open>A type that inherits a type and an interface, the type named and declared first.\<close>

definition mixedKinds :: string where
  "mixedKinds = text_of_lines
     [''type A {'', '' a: X'', ''}'', ''interface I {'', '' i: X'', ''}'',
      ''type C inherits A, I {'', '' c: X'', ''}'']"

text \<open>An interface that implements another, and a type that implements it: without and with \<open>inherits\<close>.\<close>

definition implementsChain :: string where
  "implementsChain = text_of_lines
     [''interface I {'', '' a: X'', ''}'', ''interface J implements I {'', '' a: X'', ''}'',
      ''type T implements J {'', '' a: X'', ''}'']"

definition implementsChainInherits :: string where
  "implementsChainInherits = text_of_lines
     [''interface I {'', '' a: X'', ''}'', ''interface J implements I {'', '' a: X'', ''}'',
      ''type B {'', '' b: X'', ''}'', ''type T inherits B implements J {'', '' a: X'', ''}'']"

text \<open>Two declarations that inherit each other.\<close>

definition cyclic :: string where
  "cyclic = text_of_lines
     [''type A inherits B {'', '' a: X'', ''}'', ''type B inherits A {'', '' b: X'', ''}'']"

definition cycA :: schemaObj where
  "cycA = declOf KType ''A'' GNull [propOf None ''a'' ''X''] (Some (Names [''B''])) None"

definition cycB :: schemaObj where
  "cycB = declOf KType ''B'' GNull [propOf None ''b'' ''X''] (Some (Names [''A''])) None"

text \<open>A declaration whose block is never closed.\<close>

definition unterminated :: string where
  "unterminated = text_of_lines [''type A {'', '' a: X'']"

text \<open>A declaration that uses a generic type and inherits a declaration that does not exist.\<close>

definition failing :: string where
  "failing = text_of_lines [''type A inherits B {'', '' a: C<D>'', ''}'']"

text \<open>One declaration, and a memory that an earlier call could have left behind.\<close>

definition oneType :: string where
  "oneType = text_of_lines [''type A {'', '' a: X'', ''}'']"

definition staleMemory :: memory where
  "staleMemory = emptyMemory\<lparr>memoizedGenericNameAliases := [(''Paged<Product>'', ''Stale'')]\<rparr>"

text \<open>
  The example of the spec for the merge: \<open>A\<close> with two properties, \<open>B\<close> that inherits
  \<open>A\<close> with one, and \<open>B\<close> as \<open>getObjWithExtensions\<close> returns it.
\<close>

definition baseA :: schemaObj where
  "baseA = declOf KType ''A'' GNull [propOf None ''p1'' ''X'', propOf None ''p2'' ''X''] None None"

definition childB :: schemaObj where
  "childB = declOf KType ''B'' GNull [propOf None ''p3'' ''X''] (Some (Names [''A''])) None"

definition childMerged :: schemaObj where
  "childMerged =
     \<lparr> o_type = KType, o_extend = None, o_name = ''B'', o_metadata = None, o_directive = None,
       o_genericType = GNull,
       o_blockProps = [propOf None ''p1'' ''X'', propOf None ''p2'' ''X'', propOf None ''p3'' ''X''],
       o_inherits = Some (Parents [''A'']), o_implements = Some [],
       o_originalBlockProps = Some [propOf None ''p3'' ''X''], o_comments = None, o_raw = None \<rparr>"

text \<open>The three declarations of \<open>implementsChain\<close> as parsed.\<close>

definition declI :: schemaObj where
  "declI = declOf KInterface ''I'' GNull [propOf None ''a'' ''X''] None None"

definition declJ :: schemaObj where
  "declJ = declOf KInterface ''J'' GNull [propOf None ''a'' ''X''] None (Some [''I''])"

definition declT :: schemaObj where
  "declT = declOf KType ''T'' GNull [propOf None ''a'' ''X''] None (Some [''J''])"

text \<open>The output for the end-to-end example transpiled again, and the declarations of both outputs.\<close>

definition endToEndAgain :: string where
  "endToEndAgain = text_of_lines
     [[],
      ''type Product { '', ''    id: ID'', ''}'',
      ''type Query { '', ''    products: PagedProduct'', ''}'',
      ''type PagedProduct { '', ''    items: [Product]'', ''}'']"

definition endToEndDeclarations :: "schemaObj list" where
  "endToEndDeclarations =
     [declOf KType ''Product'' GNull [propOf None ''id'' ''ID''] None None,
      declOf KType ''Query'' GNull [propOf None ''products'' ''PagedProduct''] None None,
      declOf KType ''PagedProduct'' GNull [propOf None ''items'' ''[Product]''] None None]"

section \<open>Properties\<close>

subsection \<open>The exported \<open>isTypeGeneric\<close>\<close>



subsection \<open>The monad and the dictionaries\<close>

lemma bind_apply:
  "bind f k m = (case f m of (Ok x, m') \<Rightarrow> k x m' | (Throw e, m') \<Rightarrow> (Throw e, m')
                 | (Diverge, m') \<Rightarrow> (Diverge, m'))"
  by (simp add: bind_def)

lemma bind_Ok: "bind f k m = (Ok r, m') \<longleftrightarrow> (\<exists>x m1. f m = (Ok x, m1) \<and> k x m1 = (Ok r, m'))"
  by (auto simp: bind_def split: prod.splits res.splits)

lemma ret_Ok: "ret x m = (Ok r, m') \<longleftrightarrow> (r = x \<and> m' = m)"
  by (auto simp: ret_def)

lemma throw_Ok: "throw e m = (Ok r, m') \<longleftrightarrow> False"
  by (simp add: throw_def)

lemma diverge_Ok: "diverge m = (Ok r, m') \<longleftrightarrow> False"
  by (simp add: diverge_def)

lemma map_of_al_set_same: "map_of (al_set k v al) k = Some v"
  by (induction al) auto

lemma map_of_al_set_other: "k' \<noteq> k \<Longrightarrow> map_of (al_set k v al) k' = map_of al k'"
  by (induction al) auto



subsection \<open>Instantiations are created once for each name\<close>






subsection \<open>The number of generic arguments\<close>



text \<open>What \<open>isTypeGeneric\<close> takes for a use of the letters \<open>T,U\<close>, and what it does not.\<close>

lemma isTypeGeneric_forms:
  "map (\<lambda>t. isTypeGeneric (JStr t) (JStr ''T,U''))
     [''T'', ''[T]'', ''T!'', ''[T!]!'', ''X<T>'', ''[[T]]'', ''ID'']
   = [True, True, True, True, True, False, False]"
  by code_simp




text \<open>The same two declarations with a property of type \<open>T\<close>: the call of the operation throws.\<close>

lemma arity_mismatch_end_to_end:
  "fst (transpileSchema 2 plainEnv arityUsed emptyMemory) = Throw (MismatchLettersConcrete ''T,U'' ''A'')"
  by code_simp

subsection \<open>Declarations without a closing brace\<close>

text \<open>
  The check that the source has for a declaration without a block: \<open>breakdownSchemabBit\<close>
  throws \<open>Missing block\<close> on a fragment in which the block expression finds nothing.
\<close>

lemma missing_block_is_thrown_on_a_fragment:
  "breakdownSchemabBit ''type A {'' = Inl MissingBlock"
  by code_simp

text \<open>
  Claim C6, which the source misses. The scans of \<open>getSchemaBits\<close> find a declaration
  only together with its closing brace, so a declaration that opens a block and never
  closes it gives no fragment, never reaches the check of \<open>breakdownSchemabBit\<close>, and the
  operation returns a text without the declaration and without error.
\<close>

theorem unterminated_block_dropped:
  "transpileSchema 2 plainEnv unterminated emptyMemory = (Ok [CHR 0x0A], emptyMemory)
   \<and> fst (getSchemaBits plainEnv unterminated emptyMemory) = Ok []"
  by code_simp

subsection \<open>The memory after a call\<close>

text \<open>
  Claim C7, amended. Both operations reset the memory before anything else, so their
  outcome and the memory they leave do not depend on the memory they start in; and they
  reset it again when they return a result. Nothing resets it when the call throws.
\<close>

theorem caches_reset_at_start_and_on_success:
  "transpileSchema fuel E s m = transpileSchema fuel E s emptyMemory
   \<and> getSchemaAST fuel E s m = getSchemaAST fuel E s emptyMemory
   \<and> (fst (transpileSchema fuel E s m) = Ok v \<longrightarrow> snd (transpileSchema fuel E s m) = emptyMemory)
   \<and> (fst (getSchemaAST fuel E s m) = Ok w \<longrightarrow> snd (getSchemaAST fuel E s m) = emptyMemory)"
  by (auto simp: transpileSchema_def getSchemaAST_def bind_def resetMemory_def ret_def
           split: prod.splits res.splits)

theorem caches_reset_at_start_and_on_success_witness:
  "fst (transpileSchema 2 plainEnv oneType staleMemory) = Ok (text_of_lines [[], ''type A { '', ''    a: X'', ''}''])
   \<and> snd (transpileSchema 2 plainEnv oneType staleMemory) = emptyMemory
   \<and> fst (getSchemaAST 2 plainEnv oneType staleMemory) = Ok [declA]
   \<and> snd (getSchemaAST 2 plainEnv oneType staleMemory) = emptyMemory"
proof -
  have 1: "fst (transpileSchema 2 plainEnv oneType staleMemory)
           = Ok (text_of_lines [[], ''type A { '', ''    a: X'', ''}''])"
    by code_simp
  have 2: "fst (getSchemaAST 2 plainEnv oneType staleMemory) = Ok [declA]"
    by code_simp
  from caches_reset_at_start_and_on_success [of 2 plainEnv oneType staleMemory
         "text_of_lines [[], ''type A { '', ''    a: X'', ''}'']" "[declA]"] 1 2
  show ?thesis
    by blast
qed

text \<open>
  The claim as stated fails: the call on a declaration that uses \<open>C<D>\<close> and inherits a
  missing \<open>B\<close> throws, and the alias of \<open>C<D>\<close> is still in the memory afterwards.
\<close>

theorem caches_left_after_error:
  "(let r = transpileSchema 2 plainEnv failing emptyMemory
    in fst r = Throw (CannotFindInherited KType ''A'' ''B'')
       \<and> memoizedGenericNameAliases (snd r) = [(''C<D>'', ''CD'')]
       \<and> snd r \<noteq> emptyMemory)"
  by code_simp

subsection \<open>Inheritance that goes round\<close>

text \<open>
  Two declarations that inherit each other, each the only declaration of its name and
  of a kind that may inherit from the other, neither of them memoized: the resolution of
  either goes deeper than every bound, and the memory stays as it was.
\<close>

lemma two_cycle_diverges:
  assumes ab: "o_inherits a = Some (Names [o_name b])" and ba: "o_inherits b = Some (Names [o_name a])"
    and fb: "filter (\<lambda>x. o_name x = o_name b) objs = [b]"
    and fa: "filter (\<lambda>x. o_name x = o_name a) objs = [a]"
    and alab: "inheritingIsAllowed a b" and alba: "inheritingIsAllowed b a"
    and ma: "map_of (memoizedExtendedObject m) (extKey a) = None"
    and mb: "map_of (memoizedExtendedObject m) (extKey b) = None"
  shows "getObjWithExtensions n a objs m = (Diverge, m) \<and> getObjWithExtensions n b objs m = (Diverge, m)"
proof (induction n)
  case 0
  show ?case by (simp add: diverge_def)
next
  case (Suc n)
  have "b \<in> set (filter (\<lambda>x. o_name x = o_name b) objs)"
    and "a \<in> set (filter (\<lambda>x. o_name x = o_name a) objs)"
    unfolding fb fa by simp_all
  then have inb: "b \<in> set objs" and ina: "a \<in> set objs"
    by simp_all
  from Suc have A: "getObjWithExtensions (Suc n) a objs m = (Diverge, m)"
    using ab ma alab inb fb by (simp add: Let_def bind_apply)
  from Suc have B: "getObjWithExtensions (Suc n) b objs m = (Diverge, m)"
    using ba mb alba ina fa by (simp add: Let_def bind_apply)
  from A B show ?case ..
qed

lemma cyclic_parsed:
  "(let r = firstSchemaBreakDown plainEnv cyclic [] emptyMemory
    in (fst r, memoizedExtendedObject (snd r))) = (Ok [cycA, cycB], [])"
  by code_simp

text \<open>
  Claim C5, amended. The source has no check for cycles: its memo is written only after
  the parents have been resolved. When two declarations inherit each other (each
  declared once, of kinds that may inherit from one another), resolving either of them
  raises no error and returns nothing: \<open>getObjWithExtensions\<close> calls itself for the two in
  turn, deeper than every bound.
\<close>

theorem mutual_inheritance_never_returns:
  assumes "o_inherits a = Some (Names [o_name b])" and "o_inherits b = Some (Names [o_name a])"
    and "filter (\<lambda>x. o_name x = o_name b) objs = [b]"
    and "filter (\<lambda>x. o_name x = o_name a) objs = [a]"
    and "inheritingIsAllowed a b" and "inheritingIsAllowed b a"
    and "map_of (memoizedExtendedObject m) (extKey a) = None"
    and "map_of (memoizedExtendedObject m) (extKey b) = None"
  shows "\<forall>n. getObjWithExtensions n a objs m = (Diverge, m)"
  using two_cycle_diverges [OF assms] by blast

theorem mutual_inheritance_never_returns_witness:
  "\<forall>n. getObjWithExtensions n cycA [cycA, cycB] emptyMemory = (Diverge, emptyMemory)"
proof -
  have 1: "o_inherits cycA = Some (Names [o_name cycB])"
    by code_simp
  have 2: "o_inherits cycB = Some (Names [o_name cycA])"
    by code_simp
  have 3: "filter (\<lambda>x. o_name x = o_name cycB) [cycA, cycB] = [cycB]"
    by code_simp
  have 4: "filter (\<lambda>x. o_name x = o_name cycA) [cycA, cycB] = [cycA]"
    by code_simp
  have 5: "inheritingIsAllowed cycA cycB"
    by code_simp
  have 6: "inheritingIsAllowed cycB cycA"
    by code_simp
  have 7: "map_of (memoizedExtendedObject emptyMemory) (extKey cycA) = None"
    by (simp add: emptyMemory_def)
  have 8: "map_of (memoizedExtendedObject emptyMemory) (extKey cycB) = None"
    by (simp add: emptyMemory_def)
  from mutual_inheritance_never_returns [OF 1 2 3 4 5 6 7 8] show ?thesis .
qed

text \<open>
  The claim as stated fails: on \<open>A inherits B\<close>, \<open>B inherits A\<close> neither operation raises
  an error at any depth; the recursion is without bound.
\<close>

theorem cycle_raises_nothing:
  "\<forall>n. fst (transpileSchema n plainEnv cyclic emptyMemory) = Diverge
       \<and> fst (getSchemaAST n plainEnv cyclic emptyMemory) = Diverge"
proof
  fix n
  obtain m1 where fb: "firstSchemaBreakDown plainEnv cyclic [] emptyMemory = (Ok [cycA, cycB], m1)"
    and m1: "memoizedExtendedObject m1 = []"
    using cyclic_parsed by (cases "firstSchemaBreakDown plainEnv cyclic [] emptyMemory") (simp add: Let_def)
  have "getObjWithExtensions n cycA [cycA, cycB] m1 = (Diverge, m1)"
    using two_cycle_diverges [of cycA cycB "[cycA, cycB]" m1 n] m1
    by (simp add: cycA_def cycB_def declOf_def inheritingIsAllowed_def)
  then have "getSchemaParts n plainEnv cyclic [] flag emptyMemory = (Diverge, m1)" for flag
    by (simp add: getSchemaParts_def bind_apply fb)
  then show "fst (transpileSchema n plainEnv cyclic emptyMemory) = Diverge
       \<and> fst (getSchemaAST n plainEnv cyclic emptyMemory) = Diverge"
    by (simp add: transpileSchema_def getSchemaAST_def bind_apply resetMemory_def ret_def
          plainEnv_def removeNoMetadata_def)
qed

subsection \<open>The interfaces of a declaration\<close>

text \<open>
  A declaration without \<open>inherits\<close> is returned as it is: \<open>getObjWithExtensions\<close> calls
  \<open>getObjWithInterfaces\<close> for it without the list of declarations, and without the list
  \<open>getObjWithInterfaces\<close> does nothing.
\<close>

lemma no_inherits_unchanged:
  "o_inherits obj = None \<Longrightarrow> getObjWithExtensions (Suc n) obj objs m = (Ok obj, m)"
  by (simp add: getObjWithInterfaces_def ret_def)

text \<open>
  Claim C3, which the source misses for the declarations without \<open>inherits\<close>. With
  \<open>J implements I\<close> and \<open>T implements J\<close>, the resolved \<open>implements\<close> of \<open>T\<close> is \<open>J\<close> alone:
  the three declarations come back as they were parsed.
\<close>

theorem implements_not_closed_without_inherits:
  "fst (getSchemaAST 2 plainEnv implementsChain emptyMemory) = Ok [declI, declJ, declT]
   \<and> o_implements declT = Some [''J'']"
  by code_simp

text \<open>The same \<open>T\<close> with an \<open>inherits\<close> takes the other path, which closes its interfaces.\<close>

lemma implements_closed_with_inherits:
  "(case fst (getSchemaAST 3 plainEnv implementsChainInherits emptyMemory) of
      Ok ds \<Rightarrow> map (\<lambda>d. (o_name d, o_implements d)) ds
    | _ \<Rightarrow> [])
   = [(''I'', None), (''J'', Some [''I'']), (''B'', None), (''T'', Some [''J'', ''I''])]"
  by code_simp

subsection \<open>The merge of inherited properties\<close>

lemma those_map_mono:
  assumes "\<And>x y. f x = Some y \<Longrightarrow> g x = Some y"
  shows "those (map f xs) = Some ys \<Longrightarrow> those (map g xs) = Some ys"
proof (induction xs arbitrary: ys)
  case Nil
  then show ?case by simp
next
  case (Cons x xs)
  from Cons.prems obtain y ys' where fx: "f x = Some y" and rest: "those (map f xs) = Some ys'"
    and ys: "ys = y # ys'"
    by (auto split: option.splits)
  from assms [OF fx] have gx: "g x = Some y" .
  from Cons.IH [OF rest] have "those (map g xs) = Some ys'" .
  with gx ys show ?case by simp
qed

lemma mergedProperties_Suc:
  "mergedProperties n objs x = Some ps \<Longrightarrow> mergedProperties (Suc n) objs x = Some ps"
proof (induction n arbitrary: x ps)
  case 0
  then show ?case by simp
next
  case (Suc n)
  show ?case
  proof (cases "o_inherits x")
    case None
    with Suc.prems show ?thesis by simp
  next
    case (Some inherits)
    let ?sup = "filter (\<lambda>y. inheritsName inherits (o_name y)) objs"
    from Suc.prems Some obtain pss where pss: "those (map (mergedProperties n objs) ?sup) = Some pss"
      and ps: "ps = concat pss @ o_blockProps x"
      by (auto split: option.splits)
    have "those (map (mergedProperties (Suc n) objs) ?sup) = Some pss"
      by (rule those_map_mono [OF _ pss]) (rule Suc.IH)
    with Some ps show ?thesis by simp
  qed
qed

lemma mergedProperties_add:
  "mergedProperties n objs x = Some ps \<Longrightarrow> mergedProperties (n + d) objs x = Some ps"
proof (induction d)
  case 0
  then show ?case by simp
next
  case (Suc d)
  from mergedProperties_Suc [OF Suc.IH [OF Suc.prems]] show ?case
    by (simp only: add_Suc_right)
qed

lemma mergedProperties_mono:
  assumes "n \<le> n'" and "mergedProperties n objs x = Some ps"
  shows "mergedProperties n' objs x = Some ps"
proof -
  from assms(1) have "n' = n + (n' - n)" by simp
  with mergedProperties_add [OF assms(2), of "n' - n"] show ?thesis by simp
qed

lemma merged_parents:
  assumes "list_all2 (\<lambda>x r. \<exists>k. mergedProperties k objs x = Some (o_blockProps r)) xs rs"
  shows "\<exists>K. those (map (mergedProperties K objs) xs) = Some (map o_blockProps rs)"
  using assms
proof (induction xs rs rule: list_all2_induct)
  case Nil
  then show ?case by simp
next
  case (Cons x xs r rs)
  from Cons.hyps(1) obtain k where k: "mergedProperties k objs x = Some (o_blockProps r)"
    by blast
  from Cons.IH obtain K where K: "those (map (mergedProperties K objs) xs) = Some (map o_blockProps rs)"
    by blast
  have 1: "mergedProperties (max k K) objs x = Some (o_blockProps r)"
    by (rule mergedProperties_mono [OF _ k]) simp
  have 2: "those (map (mergedProperties (max k K) objs) xs) = Some (map o_blockProps rs)"
  proof (rule those_map_mono [OF _ K])
    fix y ps
    assume "mergedProperties K objs y = Some ps"
    then show "mergedProperties (max k K) objs y = Some ps"
      by (rule mergedProperties_mono [rotated]) simp
  qed
  from 1 2 show ?case
    by (intro exI [of _ "max k K"]) simp
qed

lemma mapM_state:
  assumes "\<And>x m r m'. f x m = (r, m') \<Longrightarrow> Q m' = Q m"
  shows "mapM f xs m = (r, m') \<Longrightarrow> Q m' = Q m"
proof (induction xs arbitrary: m r m')
  case Nil
  then show ?case by (simp add: ret_def)
next
  case (Cons x xs)
  obtain r1 m1 where 1: "f x m = (r1, m1)"
    by (cases "f x m")
  from assms [OF 1] have q1: "Q m1 = Q m" .
  show ?case
  proof (cases r1)
    case (Ok y)
    obtain r2 m2 where 2: "mapM f xs m1 = (r2, m2)"
      by (cases "mapM f xs m1")
    from Cons.IH [OF 2] have "Q m2 = Q m1" .
    with 1 2 Ok Cons.prems q1 show ?thesis
      by (cases r2) (auto simp: bind_apply ret_def)
  next
    case (Throw e)
    with 1 Cons.prems q1 show ?thesis by (auto simp: bind_apply)
  next
    case Diverge
    with 1 Cons.prems q1 show ?thesis by (auto simp: bind_apply)
  qed
qed

lemma mapM_results:
  assumes step: "\<And>x m r m'. x \<in> set xs \<Longrightarrow> I m \<Longrightarrow> f x m = (Ok r, m') \<Longrightarrow> I m' \<and> R x r"
  shows "I m \<Longrightarrow> mapM f xs m = (Ok rs, m') \<Longrightarrow> I m' \<and> list_all2 R xs rs"
  using step
proof (induction xs arbitrary: m rs m')
  case Nil
  then show ?case by (simp add: ret_Ok)
next
  case (Cons x xs)
  from Cons.prems(2) obtain y m1 ys where 1: "f x m = (Ok y, m1)" and 2: "mapM f xs m1 = (Ok ys, m')"
    and rs: "rs = y # ys"
    by (auto simp: bind_Ok ret_Ok)
  have "I m1 \<and> R x y"
    by (rule Cons.prems(3) [OF _ Cons.prems(1) 1]) simp
  then have i1: "I m1" and r1: "R x y" by simp_all
  have "I m' \<and> list_all2 R xs ys"
  proof (rule Cons.IH [OF i1 2])
    fix z m r m'
    assume "z \<in> set xs" and "I m" and "f z m = (Ok r, m')"
    then show "I m' \<and> R z r"
      by (intro Cons.prems(3)) simp_all
  qed
  with r1 rs show ?case by simp
qed

lemma getInterfaceWithAncestors_ext:
  "getInterfaceWithAncestors n i objs m = (r, m')
   \<Longrightarrow> memoizedExtendedObject m' = memoizedExtendedObject m"
proof (induction n arbitrary: i m r m')
  case 0
  then show ?case by (simp add: diverge_def)
next
  case (Suc n)
  have inner: "memoizedExtendedObject m2 = memoizedExtendedObject m1"
    if "mapM (\<lambda>i. getInterfaceWithAncestors n i objs) impl m1 = (r2, m2)" for impl m1 r2 m2
    using that by (rule mapM_state [where Q = memoizedExtendedObject, rotated]) (rule Suc.IH)
  show ?case
    using Suc.prems
    by (auto simp: bind_apply ret_def Let_def dest!: inner
             split: option.splits if_splits prod.splits res.splits lookup.splits)
qed

lemma getObjWithInterfaces_ext:
  assumes "getObjWithInterfaces n obj so m = (Ok r, m')"
  shows "memoizedExtendedObject m' = memoizedExtendedObject m \<and> o_blockProps r = o_blockProps obj"
proof -
  have inner: "memoizedExtendedObject m2 = memoizedExtendedObject m1"
    if "mapM (\<lambda>i. getInterfaceWithAncestors n i objs) impl m1 = (r2, m2)" for impl m1 r2 m2 objs
    using that by (rule mapM_state [where Q = memoizedExtendedObject, rotated])
      (rule getInterfaceWithAncestors_ext)
  show ?thesis
    using assms
    by (auto simp: getObjWithInterfaces_def bind_Ok ret_Ok dest!: inner
             split: option.splits if_splits)
qed

text \<open>What a call that merges a declaration has done.\<close>

lemma getObjWithExtensions_merged:
  assumes run: "getObjWithExtensions (Suc n) obj objs m = (Ok r, m')"
    and inh: "o_inherits obj = Some inherits"
    and miss: "map_of (memoizedExtendedObject m) (extKey obj) = None"
  shows "\<exists>supers m1 w.
           mapM (\<lambda>subClass. if \<not> inheritingIsAllowed obj subClass
                              then throw (CannotInherit (o_type obj) (o_name obj)
                                            (o_type subClass) (o_name subClass))
                              else getObjWithExtensions n subClass objs)
             (filter (\<lambda>x. inheritsName inherits (o_name x)) objs) m = (Ok supers, m1)
           \<and> o_blockProps w = concat (map o_blockProps supers) @ o_blockProps obj
           \<and> getObjWithInterfaces n w (Some objs)
               (m1\<lparr>memoizedExtendedObject := al_set (extKey obj) w (memoizedExtendedObject m1)\<rparr>)
             = (Ok r, m')"
proof -
  let ?f = "\<lambda>subClass. if \<not> inheritingIsAllowed obj subClass
                              then throw (CannotInherit (o_type obj) (o_name obj)
                                            (o_type subClass) (o_name subClass))
                              else getObjWithExtensions n subClass objs"
  from run inh miss obtain supers m1 metadat where
    sup: "mapM ?f (filter (\<lambda>x. inheritsName inherits (o_name x)) objs) m = (Ok supers, m1)"
    and fin: "getObjWithInterfaces n
                \<lparr> o_type = o_type obj, o_extend = None, o_name = o_name obj,
                  o_metadata = metadat, o_directive = o_directive obj,
                  o_genericType = o_genericType obj,
                  o_blockProps = concat (map o_blockProps supers) @ o_blockProps obj,
                  o_inherits = Some (Parents (map o_name supers)),
                  o_implements = Some (uniq (filter (\<lambda>x. x \<noteq> [])
                                   (case o_implements obj of None \<Rightarrow> [] | Some i \<Rightarrow> i))),
                  o_originalBlockProps = Some (o_blockProps obj),
                  o_comments = None, o_raw = None \<rparr>
                (Some objs)
                (m1\<lparr>memoizedExtendedObject := al_set (extKey obj)
                   \<lparr> o_type = o_type obj, o_extend = None, o_name = o_name obj,
                     o_metadata = metadat, o_directive = o_directive obj,
                     o_genericType = o_genericType obj,
                     o_blockProps = concat (map o_blockProps supers) @ o_blockProps obj,
                     o_inherits = Some (Parents (map o_name supers)),
                     o_implements = Some (uniq (filter (\<lambda>x. x \<noteq> [])
                                      (case o_implements obj of None \<Rightarrow> [] | Some i \<Rightarrow> i))),
                     o_originalBlockProps = Some (o_blockProps obj),
                     o_comments = None, o_raw = None \<rparr>
                   (memoizedExtendedObject m1)\<rparr>)
              = (Ok r, m')"
    by (auto simp: Let_def bind_Ok ret_Ok throw_Ok split: list.splits option.splits if_splits)
  show ?thesis
    by (intro exI conjI, rule sup, rule_tac [2] fin) simp
qed

text \<open>
  The merge of the source refines the merge of the spec: from a memory that agrees with
  the spec, a successful call returns the merged properties of the spec and leaves a
  memory that agrees with it.
\<close>

lemma resolve_refines:
  assumes uk: "uniqueKeys objs"
  shows "obj \<in> set objs \<Longrightarrow> memoAgrees objs m \<Longrightarrow> getObjWithExtensions n obj objs m = (Ok r, m')
         \<Longrightarrow> memoAgrees objs m' \<and> (\<exists>k. mergedProperties k objs obj = Some (o_blockProps r))"
proof (induction n arbitrary: obj m r m')
  case 0
  then show ?case by (simp add: diverge_def)
next
  case (Suc n)
  show ?case
  proof (cases "o_inherits obj")
    case None
    with Suc.prems(3) have "r = obj" and "m' = m"
      by (simp_all add: getObjWithInterfaces_def ret_Ok)
    moreover from None have "mergedProperties (Suc 0) objs obj = Some (o_blockProps obj)"
      by simp
    ultimately show ?thesis
      using Suc.prems(2) by blast
  next
    case (Some inherits)
    show ?thesis
    proof (cases "map_of (memoizedExtendedObject m) (extKey obj)")
      case hit: (Some x)
      with Some Suc.prems(3) have "r = x" and "m' = m"
        by simp_all
      with hit Some Suc.prems(1,2) show ?thesis
        by (auto simp: memoAgrees_def)
    next
      case None
      let ?sup = "filter (\<lambda>x. inheritsName inherits (o_name x)) objs"
      let ?f = "\<lambda>subClass. if \<not> inheritingIsAllowed obj subClass
                              then throw (CannotInherit (o_type obj) (o_name obj)
                                            (o_type subClass) (o_name subClass))
                              else getObjWithExtensions n subClass objs"
      from getObjWithExtensions_merged [OF Suc.prems(3) Some None]
      obtain supers m1 w where
        sup: "mapM ?f ?sup m = (Ok supers, m1)"
        and w: "o_blockProps w = concat (map o_blockProps supers) @ o_blockProps obj"
        and fin: "getObjWithInterfaces n w (Some objs)
                    (m1\<lparr>memoizedExtendedObject := al_set (extKey obj) w (memoizedExtendedObject m1)\<rparr>)
                  = (Ok r, m')"
        by blast
      have "memoAgrees objs m1
            \<and> list_all2 (\<lambda>x r. \<exists>k. mergedProperties k objs x = Some (o_blockProps r)) ?sup supers"
      proof (rule mapM_results [where I = "memoAgrees objs" and f = ?f
            and R = "\<lambda>x r. \<exists>k. mergedProperties k objs x = Some (o_blockProps r)",
            OF _ Suc.prems(2) sup])
        fix x m r m'
        assume x: "x \<in> set ?sup" and i: "memoAgrees objs m" and fx: "?f x m = (Ok r, m')"
        from fx have "getObjWithExtensions n x objs m = (Ok r, m')"
          by (simp add: throw_Ok split: if_splits)
        moreover from x have "x \<in> set objs" by simp
        ultimately show "memoAgrees objs m' \<and> (\<exists>k. mergedProperties k objs x = Some (o_blockProps r))"
          using Suc.IH i by blast
      qed
      then have i1: "memoAgrees objs m1"
        and all: "list_all2 (\<lambda>x r. \<exists>k. mergedProperties k objs x = Some (o_blockProps r)) ?sup supers"
        by simp_all
      from merged_parents [OF all] obtain K where
        K: "those (map (mergedProperties K objs) ?sup) = Some (map o_blockProps supers)"
        by blast
      from getObjWithInterfaces_ext [OF fin]
      have ext: "memoizedExtendedObject m' = al_set (extKey obj) w (memoizedExtendedObject m1)"
        and props: "o_blockProps r = o_blockProps w"
        by simp_all
      from K Some w have mp: "mergedProperties (Suc K) objs obj = Some (o_blockProps w)"
        by simp
      have "memoAgrees objs m'"
        unfolding memoAgrees_def
      proof (intro ballI allI impI)
        fix x r'
        assume x: "x \<in> set objs"
          and h: "o_inherits x \<noteq> None \<and> map_of (memoizedExtendedObject m') (extKey x) = Some r'"
        show "\<exists>k. mergedProperties k objs x = Some (o_blockProps r')"
        proof (cases "extKey x = extKey obj")
          case True
          with h ext have "r' = w"
            by (simp add: map_of_al_set_same)
          moreover from True h x Some Suc.prems(1) uk have "x = obj"
            by (auto simp: uniqueKeys_def)
          ultimately show ?thesis using mp by blast
        next
          case False
          with h ext have "map_of (memoizedExtendedObject m1) (extKey x) = Some r'"
            by (simp add: map_of_al_set_other)
          with i1 x h show ?thesis
            by (auto simp: memoAgrees_def)
        qed
      qed
      moreover have "\<exists>k. mergedProperties k objs obj = Some (o_blockProps r)"
        unfolding props using mp by (rule exI)
      ultimately show ?thesis by (rule conjI)
    qed
  qed
qed

text \<open>The merge of the spec for a declaration that inherits one declaration without \<open>inherits\<close>.\<close>

lemma merged_single_parent:
  assumes "o_inherits b = Some (Names [o_name a])" and "o_inherits a = None"
    and "filter (\<lambda>x. o_name x = o_name a) objs = [a]"
    and "mergedProperties k objs b = Some ps"
  shows "ps = o_blockProps a @ o_blockProps b"
proof -
  from assms(1-3) have "mergedProperties (Suc (Suc 0)) objs b = Some (o_blockProps a @ o_blockProps b)"
    by simp
  then have "mergedProperties (max k (Suc (Suc 0))) objs b = Some (o_blockProps a @ o_blockProps b)"
    by (rule mergedProperties_mono [rotated]) simp
  moreover from assms(4) have "mergedProperties (max k (Suc (Suc 0))) objs b = Some ps"
    by (rule mergedProperties_mono [rotated]) simp
  ultimately show ?thesis by simp
qed

text \<open>Where the spec promises a result, the source returns one at every depth bound that is large enough.\<close>

lemma mapM_returns:
  assumes "\<And>x m. x \<in> set xs \<Longrightarrow> \<exists>r m'. f x m = (Ok r, m')"
  shows "\<exists>rs m'. mapM f xs m = (Ok rs, m')"
  using assms
proof (induction xs arbitrary: m)
  case Nil
  then show ?case by (simp add: ret_def)
next
  case (Cons x xs)
  from Cons.prems [of x m] obtain r m1 where 1: "f x m = (Ok r, m1)"
    by auto
  have "\<exists>rs m'. mapM f xs m1 = (Ok rs, m')"
    by (rule Cons.IH) (simp add: Cons.prems)
  then obtain rs m2 where 2: "mapM f xs m1 = (Ok rs, m2)"
    by blast
  from 1 2 show ?case
    by (simp add: bind_apply ret_def)
qed

lemma mapM_length: "mapM f xs m = (Ok rs, m') \<Longrightarrow> length rs = length xs"
proof (induction xs arbitrary: m rs)
  case Nil
  then show ?case by (simp add: ret_Ok)
next
  case (Cons x xs)
  then show ?case
    by (auto simp: bind_Ok ret_Ok)
qed

lemma getInterfaceWithAncestors_returns:
  "interfaceResolves k objs i \<Longrightarrow> k \<le> n \<Longrightarrow> \<exists>r m'. getInterfaceWithAncestors n i objs m = (Ok r, m')"
proof (induction k arbitrary: n i m)
  case 0
  then show ?case by simp
next
  case (Suc k)
  from Suc.prems(2) obtain n' where n: "n = Suc n'" and kn: "k \<le> n'"
    by (cases n) simp_all
  show ?case
  proof (cases "js_get (memoizedInterfaceWithAncestors m) i")
    case (Own r)
    with n show ?thesis by simp
  next
    case Inherited
    with n show ?thesis by simp
  next
    case Absent
    then have "i \<notin> set objectPrototypeKeys"
      by (simp add: js_get_def split: option.splits if_splits)
    with Suc.prems(1) obtain io where f: "find (\<lambda>x. o_name x = i) objs = Some io"
      and t: "o_type io = KInterface"
      and all: "list_all (interfaceResolves k objs) (case o_implements io of None \<Rightarrow> [] | Some impl \<Rightarrow> impl)"
      by (auto split: option.splits)
    show ?thesis
    proof (cases "o_implements io")
      case None
      with n Absent f t show ?thesis
        by (simp add: bind_apply ret_def)
    next
      case (Some impl)
      have "\<exists>rs m'. mapM (\<lambda>j. getInterfaceWithAncestors n' j objs) impl m = (Ok rs, m')"
      proof (rule mapM_returns)
        fix j m
        assume "j \<in> set impl"
        with all Some have "interfaceResolves k objs j"
          by (simp add: list_all_iff)
        from Suc.IH [OF this kn] show "\<exists>r m'. getInterfaceWithAncestors n' j objs m = (Ok r, m')" .
      qed
      then obtain rs m1 where "mapM (\<lambda>j. getInterfaceWithAncestors n' j objs) impl m = (Ok rs, m1)"
        by blast
      with n Absent f t Some show ?thesis
        by (simp add: bind_apply ret_def)
    qed
  qed
qed

lemma getObjWithInterfaces_returns:
  assumes "list_all (interfaceResolves k objs) (case o_implements obj of None \<Rightarrow> [] | Some impl \<Rightarrow> impl)"
    and "k \<le> n"
  shows "\<exists>r m'. getObjWithInterfaces n obj (Some objs) m = (Ok r, m')"
proof (cases "o_implements obj")
  case None
  then show ?thesis by (simp add: getObjWithInterfaces_def ret_def)
next
  case (Some impl)
  have "\<exists>rs m'. mapM (\<lambda>j. getInterfaceWithAncestors n j objs) impl m = (Ok rs, m')"
  proof (rule mapM_returns)
    fix j m
    assume "j \<in> set impl"
    with assms(1) Some have "interfaceResolves k objs j"
      by (simp add: list_all_iff)
    from getInterfaceWithAncestors_returns [OF this assms(2)]
    show "\<exists>r m'. getInterfaceWithAncestors n j objs m = (Ok r, m')" .
  qed
  then obtain rs m1 where "mapM (\<lambda>j. getInterfaceWithAncestors n j objs) impl m = (Ok rs, m1)"
    by blast
  with Some show ?thesis
    by (simp add: getObjWithInterfaces_def bind_apply ret_def)
qed

lemma getObjWithExtensions_returns:
  "resolvable k objs obj \<Longrightarrow> k \<le> n \<Longrightarrow> \<exists>r m'. getObjWithExtensions n obj objs m = (Ok r, m')"
proof (induction k arbitrary: n obj m)
  case 0
  then show ?case by simp
next
  case (Suc k)
  from Suc.prems(2) obtain n' where n: "n = Suc n'" and kn: "k \<le> n'"
    by (cases n) simp_all
  show ?case
  proof (cases "o_inherits obj")
    case None
    with n show ?thesis
      by (simp add: getObjWithInterfaces_def ret_def)
  next
    case (Some inherits)
    let ?sup = "filter (\<lambda>x. inheritsName inherits (o_name x)) objs"
    let ?f = "\<lambda>subClass. if \<not> inheritingIsAllowed obj subClass
                              then throw (CannotInherit (o_type obj) (o_name obj)
                                            (o_type subClass) (o_name subClass))
                              else getObjWithExtensions n' subClass objs"
    from Suc.prems(1) Some have miss: "missingOf inherits (map o_name objs) = []"
      and ne: "?sup \<noteq> []"
      and par: "list_all (\<lambda>p. inheritingIsAllowed obj p \<and> resolvable k objs p) ?sup"
      and ifs: "list_all (interfaceResolves k objs)
                  (uniq (filter (\<lambda>x. x \<noteq> []) (case o_implements obj of None \<Rightarrow> [] | Some i \<Rightarrow> i)))"
      by simp_all
    show ?thesis
    proof (cases "map_of (memoizedExtendedObject m) (extKey obj)")
      case hit: (Some r)
      with n Some show ?thesis by simp
    next
      case None
      have "\<exists>rs m'. mapM ?f ?sup m = (Ok rs, m')"
      proof (rule mapM_returns)
        fix x m
        assume "x \<in> set ?sup"
        with par have al: "inheritingIsAllowed obj x" and re: "resolvable k objs x"
          by (simp_all add: list_all_iff)
        from Suc.IH [OF re kn, of m] al show "\<exists>r m'. ?f x m = (Ok r, m')"
          by simp
      qed
      then obtain supers m1 where sup: "mapM ?f ?sup m = (Ok supers, m1)"
        by blast
      from mapM_length [OF sup] ne have sne: "supers \<noteq> []"
        by auto
      define metadat where "metadat = (case o_metadata obj of Some md \<Rightarrow> Some md
                                       | None \<Rightarrow> o_metadata (last supers))"
      define w where "w =
         \<lparr> o_type = o_type obj, o_extend = None, o_name = o_name obj,
           o_metadata = metadat, o_directive = o_directive obj,
           o_genericType = o_genericType obj,
           o_blockProps = concat (map o_blockProps supers) @ o_blockProps obj,
           o_inherits = Some (Parents (map o_name supers)),
           o_implements = Some (uniq (filter (\<lambda>x. x \<noteq> [])
                            (case o_implements obj of None \<Rightarrow> [] | Some i \<Rightarrow> i))),
           o_originalBlockProps = Some (o_blockProps obj),
           o_comments = None, o_raw = None \<rparr>"
      have "list_all (interfaceResolves k objs) (case o_implements w of None \<Rightarrow> [] | Some impl \<Rightarrow> impl)"
        using ifs by (simp add: w_def)
      from getObjWithInterfaces_returns [OF this kn]
      obtain r m2 where fin: "getObjWithInterfaces n' w (Some objs)
             (m1\<lparr>memoizedExtendedObject := al_set (extKey obj) w (memoizedExtendedObject m1)\<rparr>)
           = (Ok r, m2)"
        by blast
      have "getObjWithExtensions (Suc n') obj objs m = (Ok r, m2)"
        using Some None miss sup sne fin
        by (simp add: Let_def bind_apply ret_def w_def metadat_def split: option.splits)
      with n show ?thesis by blast
    qed
  qed
qed

lemma those_map_total:
  assumes "\<And>x. x \<in> set xs \<Longrightarrow> \<exists>y. f x = Some y"
  shows "\<exists>ys. those (map f xs) = Some ys"
  using assms
proof (induction xs)
  case Nil
  then show ?case by simp
next
  case (Cons x xs)
  from Cons.prems [of x] obtain y where "f x = Some y" by auto
  moreover have "\<exists>ys. those (map f xs) = Some ys"
    by (rule Cons.IH) (simp add: Cons.prems)
  ultimately show ?case by auto
qed

lemma resolvable_merged:
  "resolvable k objs obj \<Longrightarrow> \<exists>ps. mergedProperties k objs obj = Some ps"
proof (induction k arbitrary: obj)
  case 0
  then show ?case by simp
next
  case (Suc k)
  show ?case
  proof (cases "o_inherits obj")
    case None
    then show ?thesis by simp
  next
    case (Some inherits)
    let ?sup = "filter (\<lambda>x. inheritsName inherits (o_name x)) objs"
    from Suc.prems Some have par: "list_all (\<lambda>p. inheritingIsAllowed obj p \<and> resolvable k objs p) ?sup"
      by simp
    have "\<exists>pss. those (map (mergedProperties k objs) ?sup) = Some pss"
    proof (rule those_map_total)
      fix x
      assume "x \<in> set ?sup"
      with par have "resolvable k objs x"
        by (simp add: list_all_iff)
      then show "\<exists>y. mergedProperties k objs x = Some y"
        by (rule Suc.IH)
    qed
    with Some show ?thesis by auto
  qed
qed

lemma merged_unique:
  assumes "mergedProperties j objs obj = Some ps" and "mergedProperties k objs obj = Some qs"
  shows "ps = qs"
proof -
  from assms(1) have "mergedProperties (max j k) objs obj = Some ps"
    by (rule mergedProperties_mono [rotated]) simp
  moreover from assms(2) have "mergedProperties (max j k) objs obj = Some qs"
    by (rule mergedProperties_mono [rotated]) simp
  ultimately show ?thesis by simp
qed

text \<open>
  Claim C2, amended. \<open>getSchemaParts\<close> resolves each declaration of its list with
  \<open>getObjWithExtensions\<close>; the list has the declarations by kind, the interfaces first, then
  the abstract declarations, the types, the inputs, the enums, the scalars and the
  unions, each kind in the order of the text. When no two inheriting declarations of
  the list share a key, and every declaration can be resolved within the depth \<open>k\<close>
  (every inherited name is declared, each parent is of a kind that may be inherited,
  interfaces are declared, nothing goes round), then at every depth bound from \<open>k\<close> on
  the resolution returns, and the properties of each resolved declaration are the
  merged properties of the spec: the merged properties of its ancestors, taken in the
  order in which the ancestors stand in that list (not in the order of its \<open>inherits\<close>),
  followed by its own, nothing removed. In particular, for \<open>A\<close> without \<open>inherits\<close> and \<open>B\<close>
  that inherits \<open>A\<close> alone, the properties of the resolved \<open>B\<close> are those of \<open>A\<close> followed by
  those of \<open>B\<close>.
\<close>

theorem inheritance_merge:
  assumes "uniqueKeys objs" and "memoizedExtendedObject m = []"
    and "list_all (resolvable k objs) objs" and "k \<le> n"
  shows "\<exists>rs m'. mapM (\<lambda>obj. getObjWithExtensions n obj objs) objs m = (Ok rs, m')
           \<and> map (\<lambda>r. Some (o_blockProps r)) rs = map (mergedProperties k objs) objs
           \<and> (\<forall>i < length objs. \<forall>a.
                 o_inherits (objs ! i) = Some (Names [o_name a]) \<and> o_inherits a = None
                 \<and> filter (\<lambda>x. o_name x = o_name a) objs = [a]
                 \<longrightarrow> o_blockProps (rs ! i) = o_blockProps a @ o_blockProps (objs ! i))"
proof -
  have "\<exists>rs m'. mapM (\<lambda>obj. getObjWithExtensions n obj objs) objs m = (Ok rs, m')"
  proof (rule mapM_returns)
    fix x m
    assume "x \<in> set objs"
    with assms(3) have "resolvable k objs x"
      by (simp add: list_all_iff)
    from getObjWithExtensions_returns [OF this assms(4)]
    show "\<exists>r m'. getObjWithExtensions n x objs m = (Ok r, m')" .
  qed
  then obtain rs m' where run: "mapM (\<lambda>obj. getObjWithExtensions n obj objs) objs m = (Ok rs, m')"
    by blast
  have start: "memoAgrees objs m"
    using assms(2) by (simp add: memoAgrees_def)
  have "memoAgrees objs m'
        \<and> list_all2 (\<lambda>obj r. \<exists>j. mergedProperties j objs obj = Some (o_blockProps r)) objs rs"
  proof (rule mapM_results [where I = "memoAgrees objs" and f = "\<lambda>obj. getObjWithExtensions n obj objs"
        and R = "\<lambda>obj r. \<exists>j. mergedProperties j objs obj = Some (o_blockProps r)",
        OF _ start run])
    fix x m r m'
    assume "x \<in> set objs" and "memoAgrees objs m" and "getObjWithExtensions n x objs m = (Ok r, m')"
    then show "memoAgrees objs m' \<and> (\<exists>j. mergedProperties j objs x = Some (o_blockProps r))"
      by (rule resolve_refines [OF assms(1)])
  qed
  then have all: "list_all2 (\<lambda>obj r. \<exists>j. mergedProperties j objs obj = Some (o_blockProps r)) objs rs"
    by simp
  have len: "length rs = length objs"
    using all by (simp add: list_all2_lengthD)
  have nth: "mergedProperties k objs (objs ! i) = Some (o_blockProps (rs ! i))" if "i < length objs" for i
  proof -
    from all that obtain j where j: "mergedProperties j objs (objs ! i) = Some (o_blockProps (rs ! i))"
      by (auto dest: list_all2_nthD)
    from assms(3) that have "resolvable k objs (objs ! i)"
      by (simp add: list_all_length)
    from resolvable_merged [OF this] obtain ps where ps: "mergedProperties k objs (objs ! i) = Some ps"
      by blast
    from merged_unique [OF ps j] ps show ?thesis by simp
  qed
  have eq: "map (\<lambda>r. Some (o_blockProps r)) rs = map (mergedProperties k objs) objs"
    by (rule nth_equalityI) (simp_all add: len nth)
  have part: "o_blockProps (rs ! i) = o_blockProps a @ o_blockProps (objs ! i)"
    if "i < length objs" and "o_inherits (objs ! i) = Some (Names [o_name a])" and "o_inherits a = None"
      and "filter (\<lambda>x. o_name x = o_name a) objs = [a]" for i a
    using that(2-4) nth [OF that(1)] by (rule merged_single_parent)
  from run eq part show ?thesis by blast
qed

theorem inheritance_merge_witness:
  "mapM (\<lambda>obj. getObjWithExtensions 2 obj [baseA, childB]) [baseA, childB] emptyMemory
     = (Ok [baseA, childMerged], emptyMemory\<lparr>memoizedExtendedObject := [(''TYPE_B_null'', childMerged)]\<rparr>)
   \<and> map (mergedProperties 2 [baseA, childB]) [baseA, childB]
     = [Some (o_blockProps baseA), Some (o_blockProps childMerged)]
   \<and> o_blockProps childMerged = [propOf None ''p1'' ''X'', propOf None ''p2'' ''X'', propOf None ''p3'' ''X'']"
proof -
  have 1: "uniqueKeys [baseA, childB]"
    by code_simp
  have 2: "memoizedExtendedObject emptyMemory = []"
    by (simp add: emptyMemory_def)
  have 3: "list_all (resolvable 2 [baseA, childB]) [baseA, childB]"
    by code_simp
  have 4: "(2::nat) \<le> 2"
    by simp
  have 5: "mapM (\<lambda>obj. getObjWithExtensions 2 obj [baseA, childB]) [baseA, childB] emptyMemory
           = (Ok [baseA, childMerged], emptyMemory\<lparr>memoizedExtendedObject := [(''TYPE_B_null'', childMerged)]\<rparr>)"
    by code_simp
  have 6: "o_blockProps childMerged = [propOf None ''p1'' ''X'', propOf None ''p2'' ''X'', propOf None ''p3'' ''X'']"
    by (simp add: childMerged_def)
  from inheritance_merge [OF 1 2 3 4] 5
  have "map (\<lambda>r. Some (o_blockProps r)) [baseA, childMerged]
        = map (mergedProperties 2 [baseA, childB]) [baseA, childB]"
    by auto
  then have "map (mergedProperties 2 [baseA, childB]) [baseA, childB]
             = [Some (o_blockProps baseA), Some (o_blockProps childMerged)]"
    by simp
  with 5 6 show ?thesis by blast
qed

text \<open>
  The claim as stated fails on the order: \<open>C inherits B, A\<close> gets the properties of \<open>A\<close>
  before those of \<open>B\<close>, because \<open>A\<close> stands before \<open>B\<close> in the list of declarations.
\<close>

theorem inherits_order_is_declaration_order:
  "fst (firstSchemaBreakDown plainEnv inheritsTwo [] emptyMemory) = Ok [declA, declB, declC]
   \<and> o_inherits declC = Some (Names [''B'', ''A''])
   \<and> (case fst (getSchemaAST 2 plainEnv inheritsTwo emptyMemory) of
         Ok ds \<Rightarrow> map (\<lambda>d. (o_name d, map p_value (o_blockProps d))) ds
       | _ \<Rightarrow> [])
       = [(''A'', [''a: X'']), (''B'', [''b: X'']), (''C'', [''a: X'', ''b: X'', ''c: X''])]"
  by code_simp

text \<open>
  The list has the interfaces before the types: \<open>C inherits A, I\<close> with the type \<open>A\<close>
  declared before the interface \<open>I\<close> gets the properties of \<open>I\<close> first.
\<close>

lemma inherits_order_is_by_kind:
  "(case fst (getSchemaAST 2 plainEnv mixedKinds emptyMemory) of
      Ok ds \<Rightarrow> map (\<lambda>d. (o_name d, map p_value (o_blockProps d))) ds
    | _ \<Rightarrow> [])
   = [(''I'', [''i: X'']), (''A'', [''a: X'']), (''C'', [''i: X'', ''a: X'', ''c: X''])]"
  by code_simp

subsection \<open>The end-to-end example\<close>

lemma end_to_end_transpiled:
  "transpileSchema 2 plainEnv endToEndLines emptyMemory = (Ok endToEndOutput, emptyMemory)"
  by code_simp

lemma end_to_end_without_template:
  "js_indexOf ''Paged<T>'' endToEndOutput = None
   \<and> js_indexOf ''type PagedProduct'' endToEndOutput = Some 72"
  by code_simp

text \<open>
  Claim C1, amended. Every scan for a declaration with a block asks for a line break
  between its braces. For the three declarations of the example written with their
  blocks on lines of their own, \<open>transpileSchema\<close> returns the text \<open>endToEndOutput\<close>: a line
  break, the declarations \<open>Product\<close> and \<open>Query\<close> with \<open>products: PagedProduct\<close>, and right
  after the closing brace of \<open>Query\<close> the synthesized \<open>PagedProduct\<close> with
  \<open>items: [Product]\<close>; the template \<open>Paged<T>\<close> is not in it.
\<close>

theorem end_to_end_on_lines:
  "transpileSchema 2 plainEnv endToEndLines emptyMemory = (Ok endToEndOutput, emptyMemory)
   \<and> js_indexOf ''Paged<T>'' endToEndOutput = None"
  using end_to_end_transpiled end_to_end_without_template by simp

text \<open>
  The claim as stated fails: on the text with each declaration on one line the scans
  take the first two declarations for one, whose name is the generic \<open>Paged<T>\<close>, find no
  end for the third, and the result is a line break alone.
\<close>

theorem end_to_end_one_line_is_empty:
  "transpileSchema 2 plainEnv endToEndOneLine emptyMemory = (Ok [CHR 0x0A], emptyMemory)"
  by code_simp

subsection \<open>Transpiling the output again\<close>

lemma end_to_end_transpiled_again:
  "transpileSchema 2 plainEnv endToEndOutput emptyMemory = (Ok endToEndAgain, emptyMemory)"
  by code_simp

lemma end_to_end_declarations:
  "fst (getSchemaAST 2 plainEnv endToEndOutput emptyMemory) = Ok endToEndDeclarations"
  by code_simp

lemma end_to_end_declarations_again:
  "fst (getSchemaAST 2 plainEnv endToEndAgain emptyMemory) = Ok endToEndDeclarations"
  by code_simp

text \<open>
  For the end-to-end example, with its blocks on lines of their own, the output of
  \<open>transpileSchema\<close> and the output of \<open>transpileSchema\<close> on that output have the same
  resolved declarations, \<open>Product\<close>, \<open>Query\<close> and \<open>PagedProduct\<close> (the two texts differ by
  one line break).
\<close>

lemma retranspiled_example_has_same_declarations:
  "transpileSchema 2 plainEnv endToEndLines emptyMemory = (Ok endToEndOutput, emptyMemory)
   \<and> transpileSchema 2 plainEnv endToEndOutput emptyMemory = (Ok endToEndAgain, emptyMemory)
   \<and> fst (getSchemaAST 2 plainEnv endToEndAgain emptyMemory)
     = fst (getSchemaAST 2 plainEnv endToEndOutput emptyMemory)
   \<and> fst (getSchemaAST 2 plainEnv endToEndOutput emptyMemory) = Ok endToEndDeclarations"
  using end_to_end_transpiled end_to_end_transpiled_again end_to_end_declarations
    end_to_end_declarations_again
  by simp

end
